theory Spec2Isabelle
  imports Complex_Main
begin

section \<open>Strings, character classes and the regular expressions of the scraper\<close>

text \<open>
  A Python string is the list of its Unicode code points. \<open>py\<close> turns an ASCII literal into
  such a string; a character outside ASCII is written as its code point.
\<close>

type_synonym pystr = "int list"

definition py :: "string \<Rightarrow> pystr" where
  "py cs = map of_char cs"

text \<open>
  The white space of Python, the same set for \<^verbatim>\<open>\s\<close> in a pattern on \<^verbatim>\<open>str\<close>, for
  \<^verbatim>\<open>str.isspace\<close> and for \<^verbatim>\<open>str.strip()\<close>: the ASCII controls 9 to 13 and 28 to 31, the
  space, U+0085, the no-break space U+00A0, U+1680, U+2000 to U+200A, U+2028, U+2029,
  U+202F, U+205F and U+3000.
\<close>

definition is_space :: "int \<Rightarrow> bool" where
  "is_space c =
     (c \<in> set [9, 10, 11, 12, 13, 28, 29, 30, 31, 32, 133, 160, 5760,
                8192, 8193, 8194, 8195, 8196, 8197, 8198, 8199, 8200, 8201, 8202,
                8232, 8233, 8239, 8287, 12288])"

text \<open>
  The class \<^verbatim>\<open>\d\<close> of a pattern on \<^verbatim>\<open>str\<close> is the Unicode category Nd, which grows with
  the Unicode version: it is a parameter \<open>d\<close> of the patterns below (and a field of the
  environment). \<open>is_numch d\<close> is the class \<^verbatim>\<open>[\d,\.]\<close>.
\<close>

definition is_numch :: "(int \<Rightarrow> bool) \<Rightarrow> int \<Rightarrow> bool" where
  "is_numch d c = (d c \<or> c = of_char CHR '','' \<or> c = of_char CHR ''.'')"

text \<open>\<^verbatim>\<open>s.replace(",", ".")\<close>\<close>

definition replace_comma :: "pystr \<Rightarrow> pystr" where
  "replace_comma s = map (\<lambda>c. if c = of_char CHR '','' then of_char CHR ''.'' else c) s"

text \<open>\<^verbatim>\<open>p in s\<close> for strings.\<close>

fun starts_with :: "pystr \<Rightarrow> pystr \<Rightarrow> bool" where
  "starts_with [] s = True"
| "starts_with (p # ps) [] = False"
| "starts_with (p # ps) (c # cs) = (p = c \<and> starts_with ps cs)"

fun contains :: "pystr \<Rightarrow> pystr \<Rightarrow> bool" where
  "contains sub [] = (sub = [])"
| "contains sub (c # cs) = (starts_with sub (c # cs) \<or> contains sub cs)"

text \<open>
  Python's \<^verbatim>\<open>re\<close> is a backtracking matcher: at one start position it tries the
  alternatives of the pattern in a fixed order and takes the first that succeeds, and
  \<^verbatim>\<open>re.search\<close> takes the leftmost start position at which there is a match. A pattern is
  modelled by the list of its matches at a position, in the order in which the matcher
  tries them.

  \<open>greedy P s\<close> lists the ways \<^verbatim>\<open>[P]*\<close> can match a prefix of \<open>s\<close>, longest first, each
  with the text that is left.
\<close>

fun greedy :: "(int \<Rightarrow> bool) \<Rightarrow> pystr \<Rightarrow> (pystr \<times> pystr) list" where
  "greedy P [] = [([], [])]"
| "greedy P (c # cs) =
     (if P c then map (\<lambda>(t, r). (c # t, r)) (greedy P cs) @ [([], c # cs)]
      else [([], c # cs)])"

text \<open>A literal: the text left after it, when \<open>s\<close> begins with it.\<close>

fun lit :: "pystr \<Rightarrow> pystr \<Rightarrow> pystr list" where
  "lit [] s = [s]"
| "lit (p # ps) [] = []"
| "lit (p # ps) (c # cs) = (if p = c then lit ps cs else [])"

text \<open>
  \<open>re_search m s\<close>: \<open>m\<close> gives, for the text from a start position on, the values of
  group 1 of the matches there; the result is group 1 of the first match at the leftmost
  position that has one. (None of the patterns looks behind the start position.)
\<close>

fun re_search :: "(pystr \<Rightarrow> 'a list) \<Rightarrow> pystr \<Rightarrow> 'a option" where
  "re_search m [] = (case m [] of [] \<Rightarrow> None | g # _ \<Rightarrow> Some g)"
| "re_search m (c # cs) = (case m (c # cs) of [] \<Rightarrow> re_search m cs | g # _ \<Rightarrow> Some g)"

text \<open>\<^verbatim>\<open>([\d,\.]+)\s*%\<close>\<close>

definition rx_percent :: "(int \<Rightarrow> bool) \<Rightarrow> pystr \<Rightarrow> pystr list" where
  "rx_percent d s =
     [g. (g, r) \<leftarrow> greedy (is_numch d) s, g \<noteq> [], (w, r') \<leftarrow> greedy is_space r,
         _ \<leftarrow> lit (py ''%'') r']"

text \<open>\<^verbatim>\<open>([\d,\.]+)\<close>\<close>

definition rx_number :: "(int \<Rightarrow> bool) \<Rightarrow> pystr \<Rightarrow> pystr list" where
  "rx_number d s = [g. (g, r) \<leftarrow> greedy (is_numch d) s, g \<noteq> []]"

text \<open>\<^verbatim>\<open>page=(\d+)\<close>\<close>

definition rx_page :: "(int \<Rightarrow> bool) \<Rightarrow> pystr \<Rightarrow> pystr list" where
  "rx_page d s = [g. r \<leftarrow> lit (py ''page='') s, (g, r') \<leftarrow> greedy d r, g \<noteq> []]"

text \<open>
  \<^verbatim>\<open>re.match(r"^\d\.\d$", t)\<close>: a digit, a dot, a digit, up to the end of \<open>t\<close> or to a
  final newline.
\<close>

definition is_rating_text :: "(int \<Rightarrow> bool) \<Rightarrow> pystr \<Rightarrow> bool" where
  "is_rating_text d t =
     (case t of
        [a, b, c] \<Rightarrow> d a \<and> b = of_char CHR ''.'' \<and> d c
      | [a, b, c, n] \<Rightarrow> d a \<and> b = of_char CHR ''.'' \<and> d c \<and> n = 10
      | _ \<Rightarrow> False)"

text \<open>\<^verbatim>\<open>str(n)\<close> of a natural number.\<close>

fun str :: "nat \<Rightarrow> pystr" where
  "str n = (if n < 10 then [48 + int n] else str (n div 10) @ [48 + int (n mod 10)])"

declare str.simps [simp del]

text \<open>
  \<^verbatim>\<open>
  def _pct(text: str) -> str:
      m = re.search(r"([\d,\.]+)\s*%", text)
      if m:
          return m.group(1).replace(",", ".")
      m = re.search(r"([\d,\.]+)", text)
      if m:
          return m.group(1).replace(",", ".")
      return ""
  \<close>
\<close>

definition pct :: "(int \<Rightarrow> bool) \<Rightarrow> pystr \<Rightarrow> pystr" where
  "pct d text =
     (case re_search (rx_percent d) text of
        Some g \<Rightarrow> replace_comma g
      | None \<Rightarrow>
          (case re_search (rx_number d) text of
             Some g \<Rightarrow> replace_comma g
           | None \<Rightarrow> []))"

section \<open>scraper.py: the environment\<close>

text \<open>
  The case-insensitive patterns of the scraper: \<^verbatim>\<open>re.IGNORECASE\<close> follows Unicode case
  folding, so what they match is taken from the environment. Each constructor stands for
  one pattern of the source:
  \<^item> \<open>Rx_review_count\<close>: \<^verbatim>\<open>R(schwa)y\s*say[(dotless i)i]\s*:\s*(\d+)\<close> (listing page);
  \<^item> \<open>Rx_total_reviews\<close>: \<^verbatim>\<open>(\d+)\s*r(schwa)y\<close>;
  \<^item> \<open>Rx_response_rate\<close>, \<open>Rx_resolved\<close>, \<open>Rx_loyalty\<close>: the three entries of \<^verbatim>\<open>patterns\<close>;
  \<^item> \<open>Rx_star n\<close>: \<^verbatim>\<open>{n}\s*(?:ulduz|star)[^\d]*?([\d,\.]+)\s*%\<close>.
\<close>

datatype pattern =
  Rx_review_count | Rx_total_reviews | Rx_response_rate | Rx_resolved | Rx_loyalty | Rx_star nat

text \<open>
  A BeautifulSoup tag (the parsed document is one, too), given by what the scraper asks of
  it: \<^verbatim>\<open>tag.get(attr)\<close>, the three forms of \<^verbatim>\<open>get_text\<close>, \<^verbatim>\<open>select(css)\<close>,
  \<^verbatim>\<open>find_next_sibling()\<close>, and the parent of the first string matching the pattern for the
  founding date, \<^verbatim>\<open>soup.find(string=re.compile(...)).parent\<close>.
\<close>

datatype tag = Tag
  (tag_get: "pystr \<Rightarrow> pystr option")
  (get_text: pystr)
  (get_text_strip: pystr)
  (get_text_sep_strip: pystr)
  (select: "pystr \<Rightarrow> tag list")
  (find_next_sibling: "tag option")
  (find_founded_parent: "tag option")

definition select_one :: "tag \<Rightarrow> pystr \<Rightarrow> tag option" where
  "select_one t css = (case select t css of [] \<Rightarrow> None | x # _ \<Rightarrow> Some x)"

text \<open>\<^verbatim>\<open>tag.get(attr, "")\<close>\<close>

definition get_attr :: "tag \<Rightarrow> pystr \<Rightarrow> pystr" where
  "get_attr t a = (case tag_get t a of None \<Rightarrow> [] | Some v \<Rightarrow> v)"

text \<open>One HTTP request either gives a parsed document or raises \<^verbatim>\<open>requests.RequestException\<close>.\<close>

datatype 'd response = Ok 'd | RequestException

text \<open>The exceptions that leave the functions modelled here.\<close>

datatype exn = ValueError | OverflowError | StatisticsError

text \<open>
  The environment of a run: the outcome of the \<open>n\<close>-th attempt to fetch a URL, and the
  parts of Python that depend on the Unicode database or on the interpreter:
  \<^item> \<open>search_ic p t\<close>: group 1 of the case-insensitive search for \<open>p\<close> in \<open>t\<close>;
  \<^item> \<open>lower\<close>: \<^verbatim>\<open>str.lower\<close>;
  \<^item> \<open>decimal\<close>: the class \<^verbatim>\<open>\d\<close>;
  \<^item> \<open>isdigit\<close>: \<^verbatim>\<open>str.isdigit\<close>, which also holds of strings of digits that are not decimal,
    such as a superscript two;
  \<^item> \<open>to_int s\<close>: the value of \<^verbatim>\<open>int(s)\<close>, or \<open>None\<close> where it raises \<^verbatim>\<open>ValueError\<close> (a
    digit that is not decimal, or more digits than the interpreter's limit).
\<close>

record env =
  http_get :: "pystr \<Rightarrow> nat \<Rightarrow> tag response"
  search_ic :: "pattern \<Rightarrow> pystr \<Rightarrow> pystr option"
  lower :: "pystr \<Rightarrow> pystr"
  decimal :: "int \<Rightarrow> bool"
  isdigit :: "pystr \<Rightarrow> bool"
  to_int :: "pystr \<Rightarrow> nat option"

section \<open>scraper.py: configuration\<close>

definition BASE_URL :: pystr where
  "BASE_URL = py ''https://www.bildir.az''"

definition LIST_URL :: pystr where
  "LIST_URL = BASE_URL @ py ''/sirketler/''"

definition REQUEST_DELAY :: real where
  "REQUEST_DELAY = 1"

definition MAX_RETRIES :: nat where
  "MAX_RETRIES = 3"

datatype field =
  Slug | Name | Category | Founded | Description | Website
  | Facebook | Instagram | Linkedin | Youtube | Twitter
  | Overall_rating | Total_reviews
  | Response_rate_pct | Resolved_complaints_pct | Customer_loyalty_pct
  | Star5_pct | Star4_pct | Star3_pct | Star2_pct | Star1_pct
  | Profile_url

definition CSV_FIELDS :: "field list" where
  "CSV_FIELDS =
     [Slug, Name, Category, Founded, Description, Website,
      Facebook, Instagram, Linkedin, Youtube, Twitter,
      Overall_rating, Total_reviews,
      Response_rate_pct, Resolved_complaints_pct, Customer_loyalty_pct,
      Star5_pct, Star4_pct, Star3_pct, Star2_pct, Star1_pct,
      Profile_url]"

text \<open>
  A company record is the dictionary \<^verbatim>\<open>{f: "" for f in CSV_FIELDS}\<close> with some values
  replaced: its keys are the members of \<open>CSV_FIELDS\<close> from its creation on, and no other key
  is ever assigned. It is the function from these keys to the values. A row of the table read
  back by the chart generator has the same type; a cell that \<^verbatim>\<open>csv.DictReader\<close> fills with
  \<^verbatim>\<open>None\<close> for a short line is the empty string here, which the chart generator treats alike
  (\<^verbatim>\<open>r["category"] or ...\<close>, \<^verbatim>\<open>v and v.strip()\<close>).
\<close>

type_synonym company = "field \<Rightarrow> pystr"

text \<open>
  A listing stub is the dictionary built by \<^verbatim>\<open>parse_listing_page\<close>, always with the five
  keys below.
\<close>

record stub =
  slug :: pystr
  name :: pystr
  category :: pystr
  rating_listing :: pystr
  review_count_listing :: pystr

section \<open>scraper.py: get\<close>

text \<open>
  \<^verbatim>\<open>
  def get(url):
      for attempt in range(1, MAX_RETRIES + 1):
          try:
              resp = session.get(url, timeout=TIMEOUT)
              resp.raise_for_status()
              return BeautifulSoup(resp.text, "html.parser")
          except requests.RequestException as exc:
              log.warning(...)
              if attempt < MAX_RETRIES:
                  time.sleep(REQUEST_DELAY * attempt)
      log.error("Giving up on %s", url)
      return None
  \<close>
  The requests sent and the pauses made are recorded in a trace. \<open>fetch n\<close> is the outcome
  of attempt \<open>n\<close> for the URL.
\<close>

datatype event = Request nat | Sleep real

fun get_loop :: "(nat \<Rightarrow> 'd response) \<Rightarrow> nat list \<Rightarrow> event list \<Rightarrow> 'd option \<times> event list" where
  "get_loop fetch [] trace = (None, trace)"
| "get_loop fetch (attempt # rest) trace =
     (case fetch attempt of
        Ok doc \<Rightarrow> (Some doc, trace @ [Request attempt])
      | RequestException \<Rightarrow>
          get_loop fetch rest
            (trace @ [Request attempt] @
               (if attempt < MAX_RETRIES then [Sleep (REQUEST_DELAY * real attempt)] else [])))"

definition get_traced :: "(nat \<Rightarrow> 'd response) \<Rightarrow> 'd option \<times> event list" where
  "get_traced fetch = get_loop fetch [1 ..< MAX_RETRIES + 1] []"

text \<open>The value returned by \<^verbatim>\<open>get(url)\<close> in an environment.\<close>

definition get :: "env \<Rightarrow> pystr \<Rightarrow> tag option" where
  "get e url = fst (get_traced (http_get e url))"

text \<open>
  For the statement of the retry behaviour: the requests of a trace, and the trace of a call
  whose attempt \<open>k\<close> is the last one made, with a pause of \<open>REQUEST_DELAY * j\<close> after each
  earlier attempt \<open>j\<close>.
\<close>

fun is_request :: "event \<Rightarrow> bool" where
  "is_request (Request n) = True"
| "is_request (Sleep d) = False"

definition retry_trace :: "nat \<Rightarrow> event list" where
  "retry_trace k =
     concat (map (\<lambda>j. [Request j, Sleep (REQUEST_DELAY * real j)]) [1 ..< k]) @ [Request k]"

section \<open>scraper.py: listing pages\<close>

text \<open>
  \<^verbatim>\<open>
  def get_total_pages(soup):
      pagination = soup.select("ul.pagination a, .pagination a, a[href*='page=']")
      max_page = 1
      for tag in pagination:
          href = tag.get("href", "")
          m = re.search(r"page=(\d+)", href)
          if m:
              max_page = max(max_page, int(m.group(1)))
      for tag in soup.select("ul.pagination li, .pagination li"):
          txt = tag.get_text(strip=True)
          if txt.isdigit():
              max_page = max(max_page, int(txt))
      return max_page
  \<close>
  \<^verbatim>\<open>int\<close> raises \<^verbatim>\<open>ValueError\<close> on a string that \<^verbatim>\<open>isdigit\<close> accepts but that is not made of
  decimal digits, and nothing catches it: the two loops are recursions that stop at the
  first exception.
\<close>

fun max_page_links :: "env \<Rightarrow> tag list \<Rightarrow> nat \<Rightarrow> exn + nat" where
  "max_page_links e [] max_page = Inr max_page"
| "max_page_links e (t # pagination) max_page =
     (case re_search (rx_page (decimal e)) (get_attr t (py ''href'')) of
        None \<Rightarrow> max_page_links e pagination max_page
      | Some g \<Rightarrow>
          (case to_int e g of
             None \<Rightarrow> Inl ValueError
           | Some n \<Rightarrow> max_page_links e pagination (max max_page n)))"

fun max_page_items :: "env \<Rightarrow> tag list \<Rightarrow> nat \<Rightarrow> exn + nat" where
  "max_page_items e [] max_page = Inr max_page"
| "max_page_items e (t # items) max_page =
     (let txt = get_text_strip t
      in if isdigit e txt
         then (case to_int e txt of
                 None \<Rightarrow> Inl ValueError
               | Some n \<Rightarrow> max_page_items e items (max max_page n))
         else max_page_items e items max_page)"

definition get_total_pages :: "env \<Rightarrow> tag \<Rightarrow> exn + nat" where
  "get_total_pages e soup =
     (case max_page_links e
             (select soup (py ''ul.pagination a, .pagination a, a[href*='page=']'')) 1 of
        Inl x \<Rightarrow> Inl x
      | Inr max_page \<Rightarrow>
          max_page_items e (select soup (py ''ul.pagination li, .pagination li'')) max_page)"

text \<open>\<^verbatim>\<open>href.strip("/").split("/")[-1]\<close>\<close>

definition strip_slash :: "pystr \<Rightarrow> pystr" where
  "strip_slash s =
     rev (dropWhile (\<lambda>c. c = of_char CHR ''/'')
            (rev (dropWhile (\<lambda>c. c = of_char CHR ''/'') s)))"

definition last_segment :: "pystr \<Rightarrow> pystr" where
  "last_segment s = rev (takeWhile (\<lambda>c. c \<noteq> of_char CHR ''/'') (rev s))"

text \<open>The word \<^verbatim>\<open>R(schwa)y\<close> of the category test; the schwa is U+0259.\<close>

definition Rey :: pystr where
  "Rey = py ''R'' @ [601] @ py ''y''"

text \<open>
  The body of the loop of \<^verbatim>\<open>parse_listing_page\<close> for one anchor: the stub it appends, or
  \<open>None\<close> where it takes \<^verbatim>\<open>continue\<close>.
  \<^verbatim>\<open>
  href = anchor.get("href", "")
  slug = href.strip("/").split("/")[-1] if href else ""
  if not slug:
      continue
  name_tag = anchor.select_one("h5")
  name = name_tag.get_text(strip=True) if name_tag else ""
  category = ""
  for p in anchor.select("p"):
      txt = p.get_text(strip=True)
      if txt and "R(schwa)y" not in txt and "www" not in txt:
          category = txt
          break
  rating_tag = anchor.select_one(".company-rating-number, .rating-number")
  rating = ""
  if rating_tag:
      rating = rating_tag.get_text(strip=True).replace(",", ".")
  else:
      for span in anchor.select("span, div"):
          t = span.get_text(strip=True).replace(",", ".")
          if re.match(r"^\d\.\d$", t):
              rating = t
              break
  review_count = ""
  full_text = anchor.get_text(" ", strip=True)
  m = re.search(..., full_text, re.IGNORECASE)
  if m:
      review_count = m.group(1)
  companies.append({...})
  \<close>
\<close>

definition parse_anchor :: "env \<Rightarrow> tag \<Rightarrow> stub option" where
  "parse_anchor e anchor =
     (let href = get_attr anchor (py ''href'');
          sl = (if href \<noteq> [] then last_segment (strip_slash href) else [])
      in if sl = [] then None
         else
           let nm = (case select_one anchor (py ''h5'') of
                         Some name_tag \<Rightarrow> get_text_strip name_tag | None \<Rightarrow> []);
               cat =
                 (case find (\<lambda>txt. txt \<noteq> [] \<and> \<not> contains Rey txt \<and> \<not> contains (py ''www'') txt)
                         (map get_text_strip (select anchor (py ''p''))) of
                    Some txt \<Rightarrow> txt | None \<Rightarrow> []);
               rating =
                 (case select_one anchor (py ''.company-rating-number, .rating-number'') of
                    Some rating_tag \<Rightarrow> replace_comma (get_text_strip rating_tag)
                  | None \<Rightarrow>
                      (case find (is_rating_text (decimal e))
                              (map (\<lambda>span. replace_comma (get_text_strip span))
                                 (select anchor (py ''span, div''))) of
                         Some t \<Rightarrow> t | None \<Rightarrow> []));
               review_count =
                 (case search_ic e Rx_review_count (get_text_sep_strip anchor) of
                    Some g \<Rightarrow> g | None \<Rightarrow> [])
           in Some \<lparr>slug = sl, name = nm, category = cat,
                     rating_listing = rating, review_count_listing = review_count\<rparr>)"

definition parse_listing_page :: "env \<Rightarrow> tag \<Rightarrow> stub list" where
  "parse_listing_page e soup =
     List.map_filter (parse_anchor e) (select soup (py ''a.company-wrapper''))"

text \<open>
  \<^verbatim>\<open>
  def collect_all_slugs():
      soup = get(f"{LIST_URL}?page=1")
      if soup is None:
          log.error("Could not fetch listing page 1.")
          return []
      total = get_total_pages(soup)
      all_companies = []
      all_companies.extend(parse_listing_page(soup))
      time.sleep(REQUEST_DELAY)
      for page in range(2, total + 1):
          soup = get(f"{LIST_URL}?page={page}")
          if soup:
              all_companies.extend(parse_listing_page(soup))
          time.sleep(REQUEST_DELAY)
      return all_companies
  \<close>
  The pauses and log lines of \<^verbatim>\<open>collect_all_slugs\<close> and \<^verbatim>\<open>main\<close> have no effect on what they
  return or write; the model leaves them out. An exception of \<^verbatim>\<open>get_total_pages\<close> leaves
  \<^verbatim>\<open>collect_all_slugs\<close>, and \<^verbatim>\<open>main\<close>, uncaught.
\<close>

definition page_url :: "nat \<Rightarrow> pystr" where
  "page_url page = LIST_URL @ py ''?page='' @ str page"

definition listing_of_page :: "env \<Rightarrow> nat \<Rightarrow> stub list" where
  "listing_of_page e page =
     (case get e (page_url page) of
        Some soup \<Rightarrow> parse_listing_page e soup
      | None \<Rightarrow> [])"

definition collect_all_slugs :: "env \<Rightarrow> exn + stub list" where
  "collect_all_slugs e =
     (case get e (page_url 1) of
        None \<Rightarrow> Inr []
      | Some soup \<Rightarrow>
          (case get_total_pages e soup of
             Inl x \<Rightarrow> Inl x
           | Inr total_pages \<Rightarrow>
               Inr (foldl (\<lambda>all_companies page. all_companies @ listing_of_page e page)
                      (parse_listing_page e soup) [2 ..< total_pages + 1])))"
section \<open>scraper.py: detail pages\<close>

text \<open>
  \<^verbatim>\<open>
  def _text(soup, *selectors):
      for sel in selectors:
          tag = soup.select_one(sel)
          if tag:
              return tag.get_text(strip=True)
      return ""
  \<close>
\<close>

fun sel_text :: "tag \<Rightarrow> pystr list \<Rightarrow> pystr" where
  "sel_text soup [] = []"
| "sel_text soup (sel # selectors) =
     (case select_one soup sel of
        Some t \<Rightarrow> get_text_strip t
      | None \<Rightarrow> sel_text soup selectors)"

text \<open>
  The test of the loop that looks for a web site among the links of the page:
  \<^verbatim>\<open>
  href = a.get("href", "")
  if BASE_URL not in href and "bildir" not in href:
      txt = a.get_text(strip=True).lower()
      if not any(s in txt for s in ["facebook", "instagram", "linkedin", "twitter", "youtube"]):
  \<close>
\<close>

definition is_website_link :: "env \<Rightarrow> tag \<Rightarrow> bool" where
  "is_website_link e a =
     (let href = get_attr a (py ''href'')
      in \<not> contains BASE_URL href \<and> \<not> contains (py ''bildir'') href \<and>
         (let txt = lower e (get_text_strip a)
          in \<not> list_ex (\<lambda>s. contains s txt)
                 [py ''facebook'', py ''instagram'', py ''linkedin'', py ''twitter'',
                  py ''youtube'']))"

definition social_map :: "(pystr \<times> field) list" where
  "social_map =
     [(py ''facebook'', Facebook), (py ''instagram'', Instagram), (py ''linkedin'', Linkedin),
      (py ''youtube'', Youtube), (py ''twitter'', Twitter)]"

definition patterns :: "(field \<times> pattern) list" where
  "patterns =
     [(Response_rate_pct, Rx_response_rate), (Resolved_complaints_pct, Rx_resolved),
      (Customer_loyalty_pct, Rx_loyalty)]"

definition star_keys :: "(nat \<times> field) list" where
  "star_keys = [(5, Star5_pct), (4, Star4_pct), (3, Star3_pct), (2, Star2_pct), (1, Star1_pct)]"

text \<open>
  The part of \<^verbatim>\<open>parse_company_page\<close> from \<^verbatim>\<open># Name\<close> to the three percentages of
  \<^verbatim>\<open>patterns\<close> (lines 224 to 306), one function for each block of the source, each giving
  the change the block makes to \<^verbatim>\<open>data\<close>.
\<close>

definition parse_name :: "tag \<Rightarrow> company \<Rightarrow> company" where
  "parse_name soup data =
     data(Name :=
       sel_text soup [py ''h1.company-name'', py ''h1'', py ''.company-title h1'', py ''.company-info h1''])"

definition parse_category :: "tag \<Rightarrow> company \<Rightarrow> company" where
  "parse_category soup data =
     data(Category :=
       sel_text soup [py ''.company-category'', py ''.category-name'', py ''.company-type''])"

text \<open>
  \<^verbatim>\<open>
  founded_tag = soup.find(string=re.compile(r"Qurulu(s) tarixi|Founded|Yaranma", re.I))
  if founded_tag:
      parent = founded_tag.parent
      sibling = parent.find_next_sibling()
      if sibling:
          data["founded"] = sibling.get_text(strip=True)
      else:
          data["founded"] = parent.get_text(strip=True)
  \<close>
\<close>

definition parse_founded :: "tag \<Rightarrow> company \<Rightarrow> company" where
  "parse_founded soup data =
     (case find_founded_parent soup of
        None \<Rightarrow> data
      | Some parent \<Rightarrow>
          (case find_next_sibling parent of
             Some sibling \<Rightarrow> data(Founded := get_text_strip sibling)
           | None \<Rightarrow> data(Founded := get_text_strip parent)))"

definition parse_description :: "tag \<Rightarrow> company \<Rightarrow> company" where
  "parse_description soup data =
     data(Description :=
       sel_text soup [py ''.company-description p'', py ''.about-company p'',
                      (py ''.company-about''), py ''#about p'', py ''.description''])"

text \<open>
  \<^verbatim>\<open>
  website_tag = soup.select_one("a.website-url-btn, [data-href], .company-website a")
  if website_tag:
      data["website"] = (website_tag.get("data-href") or website_tag.get("href", ""))
  if not data["website"]:
      for a in soup.select("a[href^='http']"):
          ... the test above ...
                  data["website"] = href
                  break
  \<close>
\<close>

definition parse_website :: "env \<Rightarrow> tag \<Rightarrow> company \<Rightarrow> company" where
  "parse_website e soup data =
     (let data1 =
            (case select_one soup (py ''a.website-url-btn, [data-href], .company-website a'') of
               None \<Rightarrow> data
             | Some website_tag \<Rightarrow>
                 data(Website :=
                   (case tag_get website_tag (py ''data-href'') of
                      None \<Rightarrow> get_attr website_tag (py ''href'')
                    | Some v \<Rightarrow> if v \<noteq> [] then v else get_attr website_tag (py ''href''))))
      in if data1 Website = []
         then (case find (is_website_link e) (select soup (py ''a[href^='http']'')) of
                 Some a \<Rightarrow> data1(Website := get_attr a (py ''href''))
               | None \<Rightarrow> data1)
         else data1)"

text \<open>
  \<^verbatim>\<open>
  for platform, key in social_map.items():
      tag = soup.select_one(f"a[href*='{platform}']")
      if tag:
          data[key] = tag.get("href", "")
  \<close>
\<close>

definition parse_social :: "tag \<Rightarrow> company \<Rightarrow> company" where
  "parse_social soup data0 =
     foldl (\<lambda>data (platform, key).
              case select_one soup (py ''a[href*='' @ [39] @ platform @ [39] @ py '']'') of
                Some t \<Rightarrow> data(key := get_attr t (py ''href''))
              | None \<Rightarrow> data) data0 social_map"

definition parse_overall_rating :: "tag \<Rightarrow> company \<Rightarrow> company" where
  "parse_overall_rating soup data =
     (case select_one soup
             (py ''.overall-rating .rating-number, .company-rating span.number, '' @
              py ''.rating-score, .stars-number, .company-score'') of
        Some rating_tag \<Rightarrow> data(Overall_rating := replace_comma (get_text_strip rating_tag))
      | None \<Rightarrow> data)"

text \<open>
  \<^verbatim>\<open>
  reviews_tag = soup.select_one(".total-reviews, .reviews-count, .review-count strong")
  if reviews_tag:
      data["total_reviews"] = re.sub(r"\D", "", reviews_tag.get_text())
  else:
      m = re.search(r"(\d+)\s*r(schwa)y", soup.get_text(), re.IGNORECASE)
      if m:
          data["total_reviews"] = m.group(1)
  \<close>
\<close>

definition parse_total_reviews :: "env \<Rightarrow> tag \<Rightarrow> company \<Rightarrow> company" where
  "parse_total_reviews e soup data =
     (case select_one soup (py ''.total-reviews, .reviews-count, .review-count strong'') of
        Some reviews_tag \<Rightarrow> data(Total_reviews := filter (decimal e) (get_text reviews_tag))
      | None \<Rightarrow>
          (case search_ic e Rx_total_reviews (get_text soup) of
             Some g \<Rightarrow> data(Total_reviews := g)
           | None \<Rightarrow> data))"

text \<open>
  \<^verbatim>\<open>
  full_text = soup.get_text(" ", strip=True)
  for key, pat in patterns.items():
      m = re.search(pat, full_text, re.IGNORECASE)
      if m:
          data[key] = m.group(1).replace(",", ".")
  \<close>
\<close>

definition parse_stats :: "env \<Rightarrow> tag \<Rightarrow> company \<Rightarrow> company" where
  "parse_stats e soup data0 =
     (let full_text = get_text_sep_strip soup
      in foldl (\<lambda>data (key, pat).
                 case search_ic e pat full_text of
                   Some g \<Rightarrow> data(key := replace_comma g)
                 | None \<Rightarrow> data) data0 patterns)"

definition extract_fields :: "env \<Rightarrow> tag \<Rightarrow> company \<Rightarrow> company" where
  "extract_fields e soup data =
     parse_stats e soup
       (parse_total_reviews e soup
         (parse_overall_rating soup
           (parse_social soup
             (parse_website e soup
               (parse_description soup
                 (parse_founded soup
                   (parse_category soup
                     (parse_name soup data))))))))"

text \<open>
  The star distribution read from the rows (lines 310 to 318).
  \<^verbatim>\<open>
  for row in soup.select(".star-row, .rating-row, .review-bar, li.star-item"):
      txt = row.get_text(" ", strip=True)
      for star_n, col in star_keys.items():
          if str(star_n) in txt:
              pct = _pct(txt)
              if pct and not data[col]:
                  data[col] = pct
              break
  \<close>
\<close>

definition star_row :: "env \<Rightarrow> company \<Rightarrow> pystr \<Rightarrow> company" where
  "star_row e data txt =
     (case find (\<lambda>(star_n, col). contains (str star_n) txt) star_keys of
        None \<Rightarrow> data
      | Some (star_n, col) \<Rightarrow>
          (let p = pct (decimal e) txt
           in if p \<noteq> [] \<and> data col = [] then data(col := p) else data))"

definition star_rows :: "env \<Rightarrow> tag \<Rightarrow> company \<Rightarrow> company" where
  "star_rows e soup data =
     foldl (star_row e) data
       (map get_text_sep_strip
          (select soup (py ''.star-row, .rating-row, .review-bar, li.star-item'')))"

text \<open>
  The fallback on the text of the whole page (lines 321 to 328).
  \<^verbatim>\<open>
  for star_n, col in star_keys.items():
      if not data[col]:
          m = re.search(rf"{star_n}\s*(?:ulduz|star)[^\d]*?([\d,\.]+)\s*%", full_text, re.IGNORECASE)
          if m:
              data[col] = m.group(1).replace(",", ".")
  \<close>
\<close>

definition star_fallback :: "env \<Rightarrow> tag \<Rightarrow> company \<Rightarrow> company" where
  "star_fallback e soup data0 =
     (let full_text = get_text_sep_strip soup
      in foldl (\<lambda>data (star_n, col).
                 if data col = []
                 then (case search_ic e (Rx_star star_n) full_text of
                         Some g \<Rightarrow> data(col := replace_comma g)
                       | None \<Rightarrow> data)
                 else data) data0 star_keys)"

text \<open>
  \<^verbatim>\<open>
  def parse_company_page(slug):
      url = f"{BASE_URL}/{slug}/"
      soup = get(url)
      data = {f: "" for f in CSV_FIELDS}
      data["slug"] = slug
      data["profile_url"] = url
      if soup is None:
          return data
      ...
      return data
  \<close>
\<close>

definition profile_url_of :: "pystr \<Rightarrow> pystr" where
  "profile_url_of sl = BASE_URL @ py ''/'' @ sl @ py ''/''"

definition blank_record :: "pystr \<Rightarrow> company" where
  "blank_record sl = ((\<lambda>f. [])(Slug := sl))(Profile_url := profile_url_of sl)"

definition parse_company_page :: "env \<Rightarrow> pystr \<Rightarrow> company" where
  "parse_company_page e sl =
     (case get e (profile_url_of sl) of
        None \<Rightarrow> blank_record sl
      | Some soup \<Rightarrow>
          star_fallback e soup (star_rows e soup (extract_fields e soup (blank_record sl))))"

text \<open>The record as it is after the loop over the rows, before the fallback.\<close>

definition after_star_rows :: "env \<Rightarrow> tag \<Rightarrow> pystr \<Rightarrow> company" where
  "after_star_rows e soup sl = star_rows e soup (extract_fields e soup (blank_record sl))"

section \<open>scraper.py: main\<close>

text \<open>
  \<^verbatim>\<open>
  seen = set()
  unique_stubs = []
  for s in stubs:
      if s["slug"] not in seen:
          seen.add(s["slug"])
          unique_stubs.append(s)
  \<close>
  The loop state is the pair \<open>(seen, unique_stubs)\<close>.
\<close>

fun dedup_loop :: "stub list \<Rightarrow> pystr set \<Rightarrow> stub list \<Rightarrow> stub list" where
  "dedup_loop [] seen unique_stubs = unique_stubs"
| "dedup_loop (s # rest) seen unique_stubs =
     (if slug s \<notin> seen
      then dedup_loop rest (insert (slug s) seen) (unique_stubs @ [s])
      else dedup_loop rest seen unique_stubs)"

definition dedup :: "stub list \<Rightarrow> stub list" where
  "dedup stubs = dedup_loop stubs {} []"

text \<open>
  \<^verbatim>\<open>
  if not detail["name"]:
      detail["name"] = stub.get("name", "")
  if not detail["category"]:
      detail["category"] = stub.get("category", "")
  if not detail["overall_rating"]:
      detail["overall_rating"] = stub.get("rating_listing", "")
  if not detail["total_reviews"]:
      detail["total_reviews"] = stub.get("review_count_listing", "")
  \<close>
\<close>

definition backfill :: "company \<Rightarrow> stub \<Rightarrow> company" where
  "backfill detail0 stub =
     (let detail1 = (if detail0 Name = [] then detail0(Name := name stub) else detail0);
          detail2 = (if detail1 Category = [] then detail1(Category := category stub) else detail1);
          detail3 = (if detail2 Overall_rating = []
                     then detail2(Overall_rating := rating_listing stub) else detail2)
      in if detail3 Total_reviews = []
         then detail3(Total_reviews := review_count_listing stub) else detail3)"

text \<open>
  \<^verbatim>\<open>
  def main():
      stubs = collect_all_slugs()
      if not stubs:
          log.error("No companies found - aborting.")
          return
      ... unique_stubs ...
      with open(OUTPUT_CSV, "w", ...) as fh:
          writer = csv.DictWriter(fh, fieldnames=CSV_FIELDS, extrasaction="ignore")
          writer.writeheader()
          for idx, stub in enumerate(unique_stubs, 1):
              slug = stub["slug"]
              detail = parse_company_page(slug)
              ... backfill ...
              writer.writerow(detail)
              fh.flush()
              time.sleep(REQUEST_DELAY)
  \<close>
  The result is \<open>Inr None\<close> when the run aborts before the output file is opened,
  \<open>Inr (Some rows)\<close> with the rows written after the header, in order, when it runs to the
  end, and \<open>Inl x\<close> when the exception \<open>x\<close> leaves \<^verbatim>\<open>collect_all_slugs\<close>, which also is before
  the output file is opened. Errors of the file system are outside the model.
\<close>

definition scrape_company :: "env \<Rightarrow> stub \<Rightarrow> company" where
  "scrape_company e stub = backfill (parse_company_page e (slug stub)) stub"

definition main :: "env \<Rightarrow> exn + company list option" where
  "main e =
     (case collect_all_slugs e of
        Inl x \<Rightarrow> Inl x
      | Inr stubs \<Rightarrow>
          if stubs = [] then Inr None
          else Inr (Some (map (scrape_company e) (dedup stubs))))"

text \<open>Position of the first stub with slug \<open>k\<close> (the length of the list when there is none).\<close>

definition first_pos :: "stub list \<Rightarrow> pystr \<Rightarrow> nat" where
  "first_pos stubs k = length (takeWhile (\<lambda>t. slug t \<noteq> k) stubs)"

section \<open>generate_charts.py: floats\<close>

text \<open>
  A Python float is a finite binary float, given by the real number it denotes, or an
  infinity, or NaN. (Both zeros are \<open>Fin 0\<close>: nothing below tells them apart.) An \<^verbatim>\<open>int\<close> that
  meets floats, the \<^verbatim>\<open>0\<close> of \<^verbatim>\<open>reviews or 0\<close> and of the averages, is the float of the same
  value.
\<close>

datatype pyfloat = Fin real | PInf | NInf | NaN

text \<open>\<^verbatim>\<open>bool(x)\<close>: every float but zero is true, NaN too.\<close>

fun truthy :: "pyfloat \<Rightarrow> bool" where
  "truthy (Fin r) = (r \<noteq> 0)"
| "truthy x = True"

text \<open>\<^verbatim>\<open>x < y\<close> and \<^verbatim>\<open>x <= y\<close>: false when either side is NaN.\<close>

fun py_lt :: "pyfloat \<Rightarrow> pyfloat \<Rightarrow> bool" where
  "py_lt NaN y = False"
| "py_lt x NaN = False"
| "py_lt (Fin a) (Fin b) = (a < b)"
| "py_lt (Fin a) PInf = True"
| "py_lt (Fin a) NInf = False"
| "py_lt NInf NInf = False"
| "py_lt NInf y = True"
| "py_lt PInf y = False"

fun py_le :: "pyfloat \<Rightarrow> pyfloat \<Rightarrow> bool" where
  "py_le NaN y = False"
| "py_le x NaN = False"
| "py_le (Fin a) (Fin b) = (a \<le> b)"
| "py_le (Fin a) PInf = True"
| "py_le (Fin a) NInf = False"
| "py_le NInf y = True"
| "py_le PInf PInf = True"
| "py_le PInf y = False"

text \<open>\<^verbatim>\<open>-x\<close>\<close>

fun py_neg :: "pyfloat \<Rightarrow> pyfloat" where
  "py_neg (Fin r) = Fin (- r)"
| "py_neg PInf = NInf"
| "py_neg NInf = PInf"
| "py_neg NaN = NaN"

text \<open>
  \<^verbatim>\<open>int(x)\<close>: towards zero; \<^verbatim>\<open>OverflowError\<close> on an infinity and \<^verbatim>\<open>ValueError\<close> on NaN.
\<close>

fun py_int :: "pyfloat \<Rightarrow> exn + int" where
  "py_int (Fin r) = Inr (if 0 \<le> r then \<lfloor>r\<rfloor> else \<lceil>r\<rceil>)"
| "py_int PInf = Inl OverflowError"
| "py_int NInf = Inl OverflowError"
| "py_int NaN = Inl ValueError"

text \<open>
  The float operations whose results depend on binary rounding, or on the version of the
  interpreter, are parameters:
  \<^item> \<open>py_float v\<close>: the float that \<^verbatim>\<open>float(v)\<close> returns, or \<open>None\<close> where it raises
    \<^verbatim>\<open>ValueError\<close>;
  \<^item> \<open>py_sum xs\<close>: \<^verbatim>\<open>sum(xs)\<close>;
  \<^item> \<open>py_mean xs\<close>: \<^verbatim>\<open>statistics.mean(xs)\<close> for data \<open>xs\<close> that is not empty;
  \<^item> \<open>py_round x n\<close>: \<^verbatim>\<open>round(x, n)\<close>.
\<close>

record numlib =
  py_float :: "pystr \<Rightarrow> pyfloat option"
  py_sum :: "pyfloat list \<Rightarrow> pyfloat"
  py_mean :: "pyfloat list \<Rightarrow> pyfloat"
  py_round :: "pyfloat \<Rightarrow> nat \<Rightarrow> pyfloat"

text \<open>\<^verbatim>\<open>statistics.mean\<close> raises \<^verbatim>\<open>StatisticsError\<close> on no data.\<close>

definition statistics_mean :: "numlib \<Rightarrow> pyfloat list \<Rightarrow> exn + pyfloat" where
  "statistics_mean lib xs = (if xs = [] then Inl StatisticsError else Inr (py_mean lib xs))"

text \<open>
  Python's \<^verbatim>\<open>sorted\<close> with a key compares the keys with \<^verbatim>\<open><\<close> only and is stable. Where
  \<^verbatim>\<open><\<close> orders the keys (as it does for floats that are not NaN) the result is the one of
  stable insertion.
\<close>

fun insort_lt :: "('k \<Rightarrow> 'k \<Rightarrow> bool) \<Rightarrow> ('a \<Rightarrow> 'k) \<Rightarrow> 'a \<Rightarrow> 'a list \<Rightarrow> 'a list" where
  "insort_lt lt key x [] = [x]"
| "insort_lt lt key x (y # ys) =
     (if lt (key y) (key x) then y # insort_lt lt key x ys else x # y # ys)"

definition sorted_lt :: "('k \<Rightarrow> 'k \<Rightarrow> bool) \<Rightarrow> ('a \<Rightarrow> 'k) \<Rightarrow> 'a list \<Rightarrow> 'a list" where
  "sorted_lt lt key xs = foldr (insort_lt lt key) xs []"

section \<open>generate_charts.py\<close>

text \<open>
  \<^verbatim>\<open>
  def flt(v):
      try:
          return float(v) if v and v.strip() else None
      except ValueError:
          return None
  \<close>
\<close>

definition flt :: "numlib \<Rightarrow> pystr \<Rightarrow> pyfloat option" where
  "flt lib v = (if v \<noteq> [] \<and> \<not> list_all is_space v then py_float lib v else None)"

text \<open>The category \<^verbatim>\<open>"Dig(schwa)r"\<close> ("other"); the schwa is U+0259.\<close>

definition Diger :: pystr where
  "Diger = py ''Dig'' @ [601] @ py ''r''"

text \<open>\<^verbatim>\<open>r["category"] or "Dig(schwa)r"\<close>\<close>

definition category_of :: "company \<Rightarrow> pystr" where
  "category_of r = (if r Category \<noteq> [] then r Category else Diger)"

record item =
  rating :: "pyfloat option"
  reviews :: pyfloat
  loyalty :: "pyfloat option"
  response :: "pyfloat option"
  resolved :: "pyfloat option"

text \<open>\<^verbatim>\<open>x or 0\<close> for \<open>x\<close> a float or \<^verbatim>\<open>None\<close>.\<close>

definition or_zero :: "pyfloat option \<Rightarrow> pyfloat" where
  "or_zero x = (case x of None \<Rightarrow> Fin 0 | Some v \<Rightarrow> if truthy v then v else Fin 0)"

definition item_of :: "numlib \<Rightarrow> company \<Rightarrow> item" where
  "item_of lib r =
     \<lparr>rating = flt lib (r Overall_rating),
      reviews = or_zero (flt lib (r Total_reviews)),
      loyalty = flt lib (r Customer_loyalty_pct),
      response = flt lib (r Response_rate_pct),
      resolved = flt lib (r Resolved_complaints_pct)\<rparr>"

text \<open>
  \<^verbatim>\<open>cats[c].append(x)\<close> on a \<^verbatim>\<open>defaultdict(list)\<close>: a dictionary keeps its keys in the order
  in which they were first inserted, so it is an association list.
\<close>

fun cats_append :: "pystr \<Rightarrow> 'a \<Rightarrow> (pystr \<times> 'a list) list \<Rightarrow> (pystr \<times> 'a list) list" where
  "cats_append c x [] = [(c, [x])]"
| "cats_append c x ((k, xs) # rest) =
     (if k = c then (k, xs @ [x]) # rest else (k, xs) # cats_append c x rest)"

definition group_by_category :: "(company \<Rightarrow> 'a) \<Rightarrow> company list \<Rightarrow> (pystr \<times> 'a list) list" where
  "group_by_category f rows = foldl (\<lambda>cats r. cats_append (category_of r) (f r) cats) [] rows"

text \<open>
  \<^verbatim>\<open>round(statistics.mean(i[k] for i in items if i[k] is not None), 1)
       if any(i[k] is not None for i in items) else 0\<close>
\<close>

definition avg_or_zero :: "numlib \<Rightarrow> pyfloat option list \<Rightarrow> exn + pyfloat" where
  "avg_or_zero lib vs =
     (if list_ex (\<lambda>v. v \<noteq> None) vs
      then (case statistics_mean lib (map the (filter (\<lambda>v. v \<noteq> None) vs)) of
              Inl x \<Rightarrow> Inl x
            | Inr m \<Rightarrow> Inr (py_round lib m 1))
      else Inr (Fin 0))"

record cat_summary =
  s_category :: pystr
  s_count :: nat
  s_avg_rating :: pyfloat
  s_total_reviews :: int
  s_avg_loyalty :: pyfloat
  s_avg_response :: pyfloat
  s_avg_resolved :: pyfloat

text \<open>
  The dictionary appended to \<^verbatim>\<open>summary\<close> for a category (lines 91 to 102), its values
  computed in the order of the source; \<open>Inl x\<close> where one of them raises \<open>x\<close>.
  \<^verbatim>\<open>
  summary.append({
      "category":      c,
      "count":         len(items),
      "avg_rating":    round(statistics.mean(i["rating"] for i in with_rating), 2),
      "total_reviews": int(sum(i["reviews"] for i in items)),
      "avg_loyalty":   ...,
      "avg_response":  ...,
      "avg_resolved":  ...,
  })
  \<close>
\<close>

definition summarise :: "numlib \<Rightarrow> pystr \<Rightarrow> item list \<Rightarrow> item list \<Rightarrow> exn + cat_summary" where
  "summarise lib c items with_rating =
     (case statistics_mean lib (map (\<lambda>i. the (rating i)) with_rating) of
        Inl x \<Rightarrow> Inl x
      | Inr ar \<Rightarrow>
     (case py_int (py_sum lib (map reviews items)) of
        Inl x \<Rightarrow> Inl x
      | Inr tr \<Rightarrow>
     (case avg_or_zero lib (map loyalty items) of
        Inl x \<Rightarrow> Inl x
      | Inr al \<Rightarrow>
     (case avg_or_zero lib (map response items) of
        Inl x \<Rightarrow> Inl x
      | Inr ap \<Rightarrow>
     (case avg_or_zero lib (map resolved items) of
        Inl x \<Rightarrow> Inl x
      | Inr av \<Rightarrow>
          Inr \<lparr>s_category = c, s_count = length items, s_avg_rating = py_round lib ar 2,
               s_total_reviews = tr,
               s_avg_loyalty = al, s_avg_response = ap, s_avg_resolved = av\<rparr>)))))"

text \<open>
  \<^verbatim>\<open>
  summary = []
  for c, items in cats.items():
      if len(items) < min_companies:
          continue
      with_rating = [i for i in items if i["rating"] is not None]
      if not with_rating:
          continue
      summary.append({...})
  return summary
  \<close>
  The result is \<open>Inl x\<close> where the exception \<open>x\<close> leaves the loop.
\<close>

fun summary_loop ::
    "numlib \<Rightarrow> (pystr \<times> item list) list \<Rightarrow> nat \<Rightarrow> cat_summary list \<Rightarrow> exn + cat_summary list" where
  "summary_loop lib [] min_companies summary = Inr summary"
| "summary_loop lib ((c, items) # rest) min_companies summary =
     (if length items < min_companies then summary_loop lib rest min_companies summary
      else
        let with_rating = filter (\<lambda>i. rating i \<noteq> None) items
        in if with_rating = [] then summary_loop lib rest min_companies summary
           else (case summarise lib c items with_rating of
                   Inl x \<Rightarrow> Inl x
                 | Inr s \<Rightarrow> summary_loop lib rest min_companies (summary @ [s])))"

definition build_cat_stats :: "numlib \<Rightarrow> company list \<Rightarrow> nat \<Rightarrow> exn + cat_summary list" where
  "build_cat_stats lib rows min_companies =
     summary_loop lib (group_by_category (item_of lib) rows) min_companies []"

text \<open>
  The data plotted by \<^verbatim>\<open>chart_01_market_landscape\<close>:
  \<^verbatim>\<open>
  cats = defaultdict(int)
  for r in rows:
      cats[r["category"] or "Dig(schwa)r"] += 1
  data = sorted(cats.items(), key=lambda x: x[1], reverse=True)[:15]
  \<close>
  \<^verbatim>\<open>sorted\<close> is stable, also with \<^verbatim>\<open>reverse=True\<close>.
\<close>

fun cats_incr :: "pystr \<Rightarrow> (pystr \<times> nat) list \<Rightarrow> (pystr \<times> nat) list" where
  "cats_incr c [] = [(c, 1)]"
| "cats_incr c ((k, n) # rest) = (if k = c then (k, n + 1) # rest else (k, n) # cats_incr c rest)"

definition count_by_category :: "company list \<Rightarrow> (pystr \<times> nat) list" where
  "count_by_category rows = foldl (\<lambda>cats r. cats_incr (category_of r) cats) [] rows"

definition chart_01_market_landscape :: "company list \<Rightarrow> (pystr \<times> nat) list" where
  "chart_01_market_landscape rows =
     take 15 (sort_key (\<lambda>x. - int (snd x)) (count_by_category rows))"

text \<open>
  The data plotted by \<^verbatim>\<open>chart_07_most_reviewed\<close>:
  \<^verbatim>\<open>
  rated = [
      (r["name"], flt(r["total_reviews"]) or 0, flt(r["overall_rating"]))
      for r in rows if flt(r["total_reviews"]) and flt(r["total_reviews"]) >= 10
  ]
  top = sorted(rated, key=lambda x: -x[1])[:15]
  \<close>
  The keys of the sort are the negated review counts of rows that passed the test, none of
  them NaN.
\<close>

definition enough_reviews :: "numlib \<Rightarrow> company \<Rightarrow> bool" where
  "enough_reviews lib r =
     (case flt lib (r Total_reviews) of
        None \<Rightarrow> False
      | Some v \<Rightarrow> truthy v \<and> py_le (Fin 10) v)"

definition rated :: "numlib \<Rightarrow> company list \<Rightarrow> (pystr \<times> pyfloat \<times> pyfloat option) list" where
  "rated lib rows =
     map (\<lambda>r. (r Name, or_zero (flt lib (r Total_reviews)), flt lib (r Overall_rating)))
       (filter (enough_reviews lib) rows)"

definition chart_07_most_reviewed ::
    "numlib \<Rightarrow> company list \<Rightarrow> (pystr \<times> pyfloat \<times> pyfloat option) list" where
  "chart_07_most_reviewed lib rows =
     take 15 (sorted_lt py_lt (\<lambda>x. py_neg (fst (snd x))) (rated lib rows))"

section \<open>Example data\<close>

text \<open>
  Instances of the parameters of the environment, for the examples. They agree with Python
  on texts whose code points are below U+0660, the first decimal digit outside ASCII:
  there \<^verbatim>\<open>\d\<close> is the ten ASCII digits, \<^verbatim>\<open>str.isdigit\<close> accepts these and the superscripts
  two, three and one (U+00B2, U+00B3, U+00B9), \<^verbatim>\<open>int\<close> of a string accepted by \<^verbatim>\<open>isdigit\<close>
  is the number written by ASCII digits (at most 4300 of them, the default limit) and
  raises \<^verbatim>\<open>ValueError\<close> otherwise, and \<^verbatim>\<open>str.lower\<close> changes the 26 capital letters of
  ASCII text.
\<close>

definition ascii_decimal :: "int \<Rightarrow> bool" where
  "ascii_decimal c = (48 \<le> c \<and> c \<le> 57)"

definition latin_isdigit :: "pystr \<Rightarrow> bool" where
  "latin_isdigit s = (s \<noteq> [] \<and> list_all (\<lambda>c. ascii_decimal c \<or> c \<in> set [178, 179, 185]) s)"

definition digits_value :: "pystr \<Rightarrow> nat" where
  "digits_value ds = foldl (\<lambda>n c. 10 * n + nat (c - 48)) 0 ds"

definition latin_int :: "pystr \<Rightarrow> nat option" where
  "latin_int s =
     (if s \<noteq> [] \<and> list_all ascii_decimal s \<and> length s \<le> 4300 then Some (digits_value s)
      else None)"

definition ascii_lower :: "pystr \<Rightarrow> pystr" where
  "ascii_lower s = map (\<lambda>c. if 65 \<le> c \<and> c \<le> 90 then c + 32 else c) s"

definition mk_env ::
    "(pystr \<Rightarrow> nat \<Rightarrow> tag response) \<Rightarrow> (pattern \<Rightarrow> pystr \<Rightarrow> pystr option) \<Rightarrow> env" where
  "mk_env h s =
     \<lparr>http_get = h, search_ic = s, lower = ascii_lower, decimal = ascii_decimal,
      isdigit = latin_isdigit, to_int = latin_int\<rparr>"

definition ex_stubs :: "stub list" where
  "ex_stubs =
     [\<lparr>slug = py ''acme'', name = py ''Acme'', category = py ''Bank'',
        rating_listing = py ''4.5'', review_count_listing = py ''12''\<rparr>,
      \<lparr>slug = py ''bolt'', name = py ''Bolt'', category = py ''Taxi'', rating_listing = [],
        review_count_listing = []\<rparr>,
      \<lparr>slug = py ''acme'', name = py ''Acme (again)'', category = [],
        rating_listing = py ''1.0'', review_count_listing = py ''3''\<rparr>]"

text \<open>An environment in which every request fails.\<close>

definition env_down :: env where
  "env_down = mk_env (\<lambda>url n. RequestException) (\<lambda>p t. None)"

text \<open>A detail record in which only the name was found.\<close>

definition ex_detail :: company where
  "ex_detail = (blank_record (py ''acme''))(Name := py ''Acme Bank'')"



text \<open>
  A listing page with one company, and an environment in which the first listing page is
  fetched and every other request fails.
\<close>

definition ex_anchor :: tag where
  "ex_anchor =
     Tag (\<lambda>a. if a = py ''href'' then Some (py ''/acme/'') else None)
       (py ''Acme'') (py ''Acme'') (py ''Acme'') (\<lambda>css. []) None None"



text \<open>
  The same listing page with a pagination item whose text is a superscript two, which
  \<^verbatim>\<open>str.isdigit\<close> accepts and \<^verbatim>\<open>int\<close> rejects.
\<close>

definition ex_superscript_item :: tag where
  "ex_superscript_item = Tag (\<lambda>a. None) [178] [178] [178] (\<lambda>css. []) None None"

definition ex_superscript_page :: tag where
  "ex_superscript_page =
     Tag (\<lambda>a. None) (py ''Acme'') (py ''Acme'') (py ''Acme'')
       (\<lambda>css. if css = py ''a.company-wrapper'' then [ex_anchor]
              else if css = py ''ul.pagination li, .pagination li'' then [ex_superscript_item]
              else [])
       None None"

definition env_superscript :: env where
  "env_superscript = mk_env (\<lambda>url n. Ok ex_superscript_page) (\<lambda>p t. None)"

text \<open>
  A detail page with one star row, whose text also has a sentence on five stars before the
  row. The searches give what the patterns of the fallback match in that text: \<open>60\<close> for
  five stars, \<open>22,7\<close> for four, nothing for the others.
\<close>

definition ex_star_text :: pystr where
  "ex_star_text = py ''5 ulduz 60% 5 ulduz 54,5% 4 ulduz 22,7%''"

definition ex_star_row :: tag where
  "ex_star_row =
     Tag (\<lambda>a. None) (py ''5 ulduz 54,5%'') (py ''5 ulduz54,5%'') (py ''5 ulduz 54,5%'')
       (\<lambda>css. []) None None"

definition ex_company_page :: tag where
  "ex_company_page =
     Tag (\<lambda>a. None) ex_star_text ex_star_text ex_star_text
       (\<lambda>css. if css = py ''.star-row, .rating-row, .review-bar, li.star-item''
              then [ex_star_row] else [])
       None None"

definition env_stars :: env where
  "env_stars =
     mk_env (\<lambda>url n. Ok ex_company_page)
       (\<lambda>p t. case p of
                 Rx_star n \<Rightarrow> if t = ex_star_text \<and> n = 5 then Some (py ''60'')
                              else if t = ex_star_text \<and> n = 4 then Some (py ''22,7'')
                              else None
               | _ \<Rightarrow> None)"

text \<open>
  Instances of the float operations, for the examples. \<open>float_of_text\<close> reads a string of at
  most fifteen ASCII digits as the integer it writes, and the words \<^verbatim>\<open>inf\<close> and \<^verbatim>\<open>nan\<close>.
  Sum, mean and rounding are those of the real numbers, with an infinite or NaN sum where
  an addend is infinite or NaN. They agree with Python on the tables below, whose finite
  numbers are small integers with sums, means and roundings that are floats themselves.
\<close>

definition float_of_text :: "pystr \<Rightarrow> pyfloat option" where
  "float_of_text v =
     (if v = py ''inf'' then Some PInf
      else if v = py ''nan'' then Some NaN
      else if v \<noteq> [] \<and> list_all ascii_decimal v \<and> length v \<le> 15
      then Some (Fin (real (digits_value v)))
      else None)"

fun real_of :: "pyfloat \<Rightarrow> real" where
  "real_of (Fin r) = r"
| "real_of x = 0"

definition exact_sum :: "pyfloat list \<Rightarrow> pyfloat" where
  "exact_sum xs =
     (if NaN \<in> set xs \<or> (PInf \<in> set xs \<and> NInf \<in> set xs) then NaN
      else if PInf \<in> set xs then PInf
      else if NInf \<in> set xs then NInf
      else Fin (sum_list (map real_of xs)))"

definition exact_mean :: "pyfloat list \<Rightarrow> pyfloat" where
  "exact_mean xs =
     (case exact_sum xs of
        Fin t \<Rightarrow> Fin (t / real (length xs))
      | x \<Rightarrow> x)"

definition round_half_even :: "real \<Rightarrow> int" where
  "round_half_even x =
     (let f = \<lfloor>x\<rfloor>; d = x - of_int f
      in if d < 1/2 then f else if 1/2 < d then f + 1 else if even f then f else f + 1)"

definition exact_round :: "pyfloat \<Rightarrow> nat \<Rightarrow> pyfloat" where
  "exact_round x n =
     (case x of
        Fin r \<Rightarrow> Fin (of_int (round_half_even (r * 10 ^ n)) / 10 ^ n)
      | y \<Rightarrow> y)"

definition ex_numlib :: numlib where
  "ex_numlib = \<lparr>py_float = float_of_text, py_sum = exact_sum, py_mean = exact_mean,
                 py_round = exact_round\<rparr>"

text \<open>Rows of the table, by name, category, overall rating and number of reviews.\<close>

definition mk_row :: "string \<Rightarrow> string \<Rightarrow> string \<Rightarrow> string \<Rightarrow> company" where
  "mk_row nm cat rt rv =
     (\<lambda>f. [])(Name := py nm, Category := py cat, Overall_rating := py rt,
               Total_reviews := py rv)"

text \<open>Five companies of category A, none with a rating.\<close>

definition ex_unrated5 :: "company list" where
  "ex_unrated5 =
     [mk_row ''a1'' ''A'' [] ''3'', mk_row ''a2'' ''A'' [] ''10'', mk_row ''a3'' ''A'' [] [],
      mk_row ''a4'' ''A'' [] ''7'', mk_row ''a5'' ''A'' [] ''9'']"

text \<open>Five rated companies of category B and four of category C.\<close>

definition ex_rated :: "company list" where
  "ex_rated =
     [mk_row ''b1'' ''B'' ''4'' ''10'', mk_row ''c1'' ''C'' ''5'' ''9'',
      mk_row ''b2'' ''B'' ''3'' ''25'', mk_row ''c2'' ''C'' ''5'' ''11'',
      mk_row ''b3'' ''B'' [] [], mk_row ''c3'' ''C'' ''2'' [],
      mk_row ''b4'' ''B'' ''5'' ''0'', mk_row ''c4'' ''C'' ''1'' ''100'',
      mk_row ''b5'' ''B'' ''4'' ''12'']"

text \<open>Five companies without a category.\<close>

definition ex_no_category :: "company list" where
  "ex_no_category =
     [mk_row ''d1'' [] ''4'' ''10'', mk_row ''d2'' [] ''2'' ''1'', mk_row ''d3'' [] [] [],
      mk_row ''d4'' [] ''5'' ''3'', mk_row ''d5'' [] ''3'' ''8'']"

text \<open>Five rated companies of category I, one of them with an infinite number of reviews.\<close>

definition ex_infinite :: "company list" where
  "ex_infinite =
     [mk_row ''i1'' ''I'' ''4'' ''inf'', mk_row ''i2'' ''I'' ''4'' ''1'',
      mk_row ''i3'' ''I'' ''4'' ''1'', mk_row ''i4'' ''I'' ''4'' ''1'',
      mk_row ''i5'' ''I'' ''4'' ''1'']"

section \<open>Proofs: removal of duplicates\<close>

lemma dedup_loop_acc:
  "dedup_loop xs seen acc = acc @ dedup_loop xs seen []"
proof (induction xs arbitrary: seen acc)
  case Nil
  show ?case by simp
next
  case (Cons x xs)
  show ?case
  proof (cases "slug x \<in> seen")
    case True
    then show ?thesis using Cons.IH [of seen acc] by simp
  next
    case False
    then show ?thesis
      using Cons.IH [of "insert (slug x) seen" "acc @ [x]"]
        Cons.IH [of "insert (slug x) seen" "[x]"]
      by simp
  qed
qed

lemma dedup_loop_Cons:
  "dedup_loop (x # xs) seen [] =
     (if slug x \<in> seen then dedup_loop xs seen []
      else x # dedup_loop xs (insert (slug x) seen) [])"
  using dedup_loop_acc [of xs "insert (slug x) seen" "[x]"] by simp

declare dedup_loop.simps(2) [simp del]

lemma dedup_loop_filter:
  "dedup_loop xs seen [] = filter (\<lambda>t. slug t \<notin> seen) (dedup_loop xs {} [])"
proof (induction xs arbitrary: seen)
  case Nil
  show ?case by simp
next
  case (Cons x xs)
  have a: "dedup_loop xs (insert (slug x) seen) [] =
        filter (\<lambda>t. slug t \<notin> insert (slug x) seen) (dedup_loop xs {} [])"
    by (rule Cons.IH)
  have b: "dedup_loop xs {slug x} [] = filter (\<lambda>t. slug t \<notin> {slug x}) (dedup_loop xs {} [])"
    by (rule Cons.IH)
  have c: "dedup_loop xs seen [] = filter (\<lambda>t. slug t \<notin> seen) (dedup_loop xs {} [])"
    by (rule Cons.IH)
  show ?case
  proof (cases "slug x \<in> seen")
    case True
    have "filter (\<lambda>t. slug t \<notin> seen) (filter (\<lambda>t. slug t \<notin> {slug x}) (dedup_loop xs {} []))
        = filter (\<lambda>t. slug t \<notin> seen) (dedup_loop xs {} [])"
      using True by (auto intro: filter_cong)
    then show ?thesis using True b c by (simp add: dedup_loop_Cons)
  next
    case False
    have "filter (\<lambda>t. slug t \<notin> seen) (filter (\<lambda>t. slug t \<notin> {slug x}) (dedup_loop xs {} []))
        = filter (\<lambda>t. slug t \<notin> insert (slug x) seen) (dedup_loop xs {} [])"
      by (auto intro: filter_cong)
    then show ?thesis using False a b by (simp add: dedup_loop_Cons)
  qed
qed

lemma dedup_Nil: "dedup [] = []"
  by (simp add: dedup_def)

lemma dedup_Cons: "dedup (x # xs) = x # filter (\<lambda>t. slug t \<noteq> slug x) (dedup xs)"
  using dedup_loop_filter [of xs "{slug x}"] by (simp add: dedup_def dedup_loop_Cons)

lemma set_dedup: "slug ` set (dedup xs) = slug ` set xs"
proof (induction xs)
  case Nil
  show ?case by (simp add: dedup_Nil)
next
  case (Cons x xs)
  have "slug ` set (filter (\<lambda>t. slug t \<noteq> slug x) (dedup xs)) = slug ` set (dedup xs) - {slug x}"
    by auto
  then show ?case using Cons.IH by (auto simp: dedup_Cons)
qed

lemma distinct_dedup: "distinct (map slug (dedup xs))"
proof (induction xs)
  case Nil
  show ?case by (simp add: dedup_Nil)
next
  case (Cons x xs)
  have "distinct (map slug (filter (\<lambda>t. slug t \<noteq> slug x) (dedup xs)))"
    using Cons.IH by (simp add: distinct_map_filter)
  then show ?case by (auto simp: dedup_Cons)
qed

lemma find_dedup: "s \<in> set (dedup xs) \<Longrightarrow> find (\<lambda>t. slug t = slug s) xs = Some s"
  by (induction xs) (auto simp: dedup_Nil dedup_Cons)

lemma first_pos_Cons:
  "first_pos (x # xs) k = (if slug x = k then 0 else Suc (first_pos xs k))"
  by (simp add: first_pos_def)

lemma sorted_dedup:
  "sorted_wrt (\<lambda>a b. first_pos xs (slug a) < first_pos xs (slug b)) (dedup xs)"
proof (induction xs)
  case Nil
  show ?case by (simp add: dedup_Nil)
next
  case (Cons x xs)
  let ?tl = "filter (\<lambda>t. slug t \<noteq> slug x) (dedup xs)"
  have "sorted_wrt (\<lambda>a b. first_pos xs (slug a) < first_pos xs (slug b)) ?tl"
    using Cons.IH by (rule sorted_wrt_filter)
  then have "sorted_wrt (\<lambda>a b. first_pos (x # xs) (slug a) < first_pos (x # xs) (slug b)) ?tl"
    by (rule sorted_wrt_mono_rel [rotated]) (auto simp: first_pos_Cons)
  moreover have "\<forall>a \<in> set ?tl. first_pos (x # xs) (slug x) < first_pos (x # xs) (slug a)"
    by (auto simp: first_pos_Cons)
  ultimately show ?case by (simp add: dedup_Cons)
qed

text \<open>
  C1. For every sequence of stubs, the deduplication step of \<open>main\<close> keeps each slug of the
  input exactly once, in the order in which the slugs first appear, and the stub kept for a
  slug is the first stub of the input with that slug.
\<close>

theorem dedup_first_seen:
  "distinct (map slug (dedup stubs))
   \<and> set (map slug (dedup stubs)) = set (map slug stubs)
   \<and> sorted_wrt (\<lambda>a b. first_pos stubs (slug a) < first_pos stubs (slug b)) (dedup stubs)
   \<and> (\<forall>s \<in> set (dedup stubs). find (\<lambda>t. slug t = slug s) stubs = Some s)"
  using distinct_dedup [of stubs] set_dedup [of stubs] sorted_dedup [of stubs]
    find_dedup [of _ stubs]
  by simp


theorem dedup_first_seen_witness:
  "dedup ex_stubs = [ex_stubs ! 0, ex_stubs ! 1]
   \<and> distinct (map slug (dedup ex_stubs))
   \<and> find (\<lambda>t. slug t = py ''acme'') ex_stubs = Some (ex_stubs ! 0)"
  using dedup_first_seen [of ex_stubs] by (simp add: ex_stubs_def dedup_def dedup_loop.simps py_def)

section \<open>Proofs: get\<close>

lemma retry_trace_simps:
  "retry_trace 1 = [Request 1]"
  "retry_trace 2 = [Request 1, Sleep 1, Request 2]"
  "retry_trace 3 = [Request 1, Sleep 1, Request 2, Sleep 2, Request 3]"
  by (simp_all add: retry_trace_def REQUEST_DELAY_def upt_rec numeral_eq_Suc)

lemma get_traced_unfold:
  "get_traced fetch = get_loop fetch [1, 2, 3] []"
  by (simp add: get_traced_def MAX_RETRIES_def upt_rec numeral_eq_Suc)

lemma get_traced_cases:
  "get_traced fetch =
     (case fetch 1 of Ok d \<Rightarrow> (Some d, retry_trace 1)
      | RequestException \<Rightarrow>
     (case fetch 2 of Ok d \<Rightarrow> (Some d, retry_trace 2)
      | RequestException \<Rightarrow>
     (case fetch 3 of Ok d \<Rightarrow> (Some d, retry_trace 3)
      | RequestException \<Rightarrow> (None, retry_trace 3))))"
  unfolding get_traced_unfold retry_trace_simps
  by (simp add: MAX_RETRIES_def REQUEST_DELAY_def split: response.splits)

lemma get_None_iff:
  "get e url = None \<longleftrightarrow> (\<forall>n \<in> {1, 2, 3}. http_get e url n = RequestException)"
  unfolding get_def get_traced_cases by (simp split: response.splits)

text \<open>
  C4. \<open>get\<close> sends at most \<open>MAX_RETRIES = 3\<close> requests. If attempt \<open>k\<close> is the first that
  succeeds, it returns that attempt's document, having paused for \<open>REQUEST_DELAY * j\<close> after
  each failed attempt \<open>j < k\<close>. If all three attempts fail it returns \<open>None\<close>, having paused
  after the first and the second attempt and not after the third.
\<close>

theorem get_retries:
  "length (filter is_request (snd (get_traced fetch))) \<le> MAX_RETRIES
   \<and> (\<forall>k d. 1 \<le> k \<and> k \<le> MAX_RETRIES
          \<and> (\<forall>j. 1 \<le> j \<and> j < k \<longrightarrow> fetch j = RequestException) \<and> fetch k = Ok d
          \<longrightarrow> get_traced fetch = (Some d, retry_trace k))
   \<and> ((\<forall>j. 1 \<le> j \<and> j \<le> MAX_RETRIES \<longrightarrow> fetch j = RequestException)
          \<longrightarrow> get_traced fetch = (None, retry_trace MAX_RETRIES))"
proof (intro conjI allI impI)
  show "length (filter is_request (snd (get_traced fetch))) \<le> MAX_RETRIES"
    unfolding get_traced_cases retry_trace_simps
    by (simp add: MAX_RETRIES_def split: response.splits)
next
  fix k d
  assume h: "1 \<le> k \<and> k \<le> MAX_RETRIES
    \<and> (\<forall>j. 1 \<le> j \<and> j < k \<longrightarrow> fetch j = RequestException) \<and> fetch k = Ok d"
  then have "k = 1 \<or> k = 2 \<or> k = 3"
    by (auto simp: MAX_RETRIES_def)
  then show "get_traced fetch = (Some d, retry_trace k)"
  proof (elim disjE)
    assume "k = 1"
    then show ?thesis using h unfolding get_traced_cases by simp
  next
    assume k: "k = 2"
    then have "fetch 1 = RequestException" "fetch 2 = Ok d"
      using h by auto
    then show ?thesis using k unfolding get_traced_cases by simp
  next
    assume k: "k = 3"
    then have "fetch 1 = RequestException" "fetch 2 = RequestException" "fetch 3 = Ok d"
      using h by auto
    then show ?thesis using k unfolding get_traced_cases by simp
  qed
next
  assume h: "\<forall>j. 1 \<le> j \<and> j \<le> MAX_RETRIES \<longrightarrow> fetch j = RequestException"
  then have "fetch 1 = RequestException" "fetch 2 = RequestException" "fetch 3 = RequestException"
    by (auto simp: MAX_RETRIES_def)
  then show "get_traced fetch = (None, retry_trace MAX_RETRIES)"
    unfolding get_traced_cases by (simp add: MAX_RETRIES_def)
qed

theorem get_retries_witness:
  "get_traced (\<lambda>n. if n = 2 then Ok ''doc'' else RequestException)
     = (Some ''doc'', [Request 1, Sleep 1, Request 2])
   \<and> get_traced (\<lambda>n. RequestException :: string response)
     = (None, [Request 1, Sleep 1, Request 2, Sleep 2, Request 3])"
proof -
  let ?f = "\<lambda>n::nat. if n = 2 then Ok ''doc'' else RequestException"
  let ?g = "\<lambda>n::nat. RequestException :: string response"
  have "1 \<le> (2::nat) \<and> 2 \<le> MAX_RETRIES
        \<and> (\<forall>j. 1 \<le> j \<and> j < 2 \<longrightarrow> ?f j = RequestException) \<and> ?f 2 = Ok ''doc''"
    by (simp add: MAX_RETRIES_def)
  then have a: "get_traced ?f = (Some ''doc'', retry_trace 2)"
    using get_retries [of ?f] by blast
  have "\<forall>j. 1 \<le> j \<and> j \<le> MAX_RETRIES \<longrightarrow> ?g j = RequestException"
    by simp
  then have b: "get_traced ?g = (None, retry_trace MAX_RETRIES)"
    using get_retries [of ?g] by blast
  show ?thesis using a b by (simp add: retry_trace_simps MAX_RETRIES_def)
qed

section \<open>Proofs: a detail page that cannot be fetched\<close>

text \<open>
  C2. When \<open>get\<close> returns \<open>None\<close> for the detail page of a slug, \<open>parse_company_page\<close>
  returns a record whose \<open>slug\<close> is the given slug, whose \<open>profile_url\<close> is
  \<open>BASE_URL/slug/\<close> (so it is not empty), and whose other fields are all the empty string.
  The function is total: there is nothing it raises.
\<close>

theorem parse_company_page_fetch_failed:
  assumes "get e (profile_url_of sl) = None"
  shows "parse_company_page e sl Slug = sl
    \<and> parse_company_page e sl Profile_url = BASE_URL @ py ''/'' @ sl @ py ''/''
    \<and> parse_company_page e sl Profile_url \<noteq> []
    \<and> (\<forall>f. f \<noteq> Slug \<and> f \<noteq> Profile_url \<longrightarrow> parse_company_page e sl f = [])"
  using assms
  by (simp add: parse_company_page_def blank_record_def profile_url_of_def BASE_URL_def py_def)

theorem parse_company_page_fetch_failed_witness:
  "get env_down (profile_url_of (py ''acme'')) = None
   \<and> parse_company_page env_down (py ''acme'') Slug = py ''acme''
   \<and> parse_company_page env_down (py ''acme'') Profile_url = py ''https://www.bildir.az/acme/''
   \<and> parse_company_page env_down (py ''acme'') Name = []
   \<and> parse_company_page env_down (py ''acme'') Star5_pct = []"
proof -
  have g: "get env_down (profile_url_of (py ''acme'')) = None"
    by (simp add: get_None_iff env_down_def mk_env_def)
  show ?thesis
    using g parse_company_page_fetch_failed [OF g] by (simp add: BASE_URL_def py_def)
qed

section \<open>Proofs: backfill from the listing stub\<close>

text \<open>
  C3. The backfill step changes no field other than \<open>name\<close>, \<open>category\<close>, \<open>overall_rating\<close>
  and \<open>total_reviews\<close>; each of these four keeps the value of the detail record when that
  value is not empty, and takes the value of the stub (\<open>name\<close>, \<open>category\<close>,
  \<open>rating_listing\<close>, \<open>review_count_listing\<close>) when it is empty.
\<close>

theorem backfill_only_empty:
  "(\<forall>f. f \<notin> {Name, Category, Overall_rating, Total_reviews}
        \<longrightarrow> backfill detail stub f = detail f)
   \<and> backfill detail stub Name = (if detail Name = [] then name stub else detail Name)
   \<and> backfill detail stub Category
        = (if detail Category = [] then category stub else detail Category)
   \<and> backfill detail stub Overall_rating
        = (if detail Overall_rating = [] then rating_listing stub else detail Overall_rating)
   \<and> backfill detail stub Total_reviews
        = (if detail Total_reviews = [] then review_count_listing stub
           else detail Total_reviews)"
  by (simp add: backfill_def Let_def)

theorem backfill_only_empty_witness:
  "backfill ex_detail (ex_stubs ! 0) Name = py ''Acme Bank''
   \<and> backfill ex_detail (ex_stubs ! 0) Category = py ''Bank''
   \<and> backfill ex_detail (ex_stubs ! 0) Overall_rating = py ''4.5''
   \<and> backfill ex_detail (ex_stubs ! 0) Total_reviews = py ''12''
   \<and> backfill ex_detail (ex_stubs ! 0) Slug = py ''acme''
   \<and> backfill ex_detail (ex_stubs ! 0) Founded = []"
  using backfill_only_empty [of ex_detail "ex_stubs ! 0"]
  by (simp add: ex_detail_def ex_stubs_def blank_record_def py_def)

section \<open>Proofs: fields that the extraction leaves alone\<close>

lemma foldl_keeps:
  "(\<And>d x. x \<in> set xs \<Longrightarrow> step d x f = d f) \<Longrightarrow> foldl step d xs f = d f"
  by (induction xs arbitrary: d) simp_all







lemma star_fallback_keeps:
  assumes "f \<notin> snd ` set star_keys"
  shows "star_fallback e soup d f = d f"
  unfolding star_fallback_def Let_def
proof (rule foldl_keeps)
  fix d :: company and x :: "nat \<times> field"
  assume "x \<in> set star_keys"
  then have "snd x \<noteq> f" using assms by auto
  then show "(case x of (star_n, col) \<Rightarrow>
      if d col = []
      then (case search_ic e (Rx_star star_n) (get_text_sep_strip soup) of
              Some g \<Rightarrow> d(col := replace_comma g)
            | None \<Rightarrow> d)
      else d) f = d f"
    by (cases x) (simp split: option.splits)
qed

text \<open>The fallback does not change a field that is not empty.\<close>

lemma fallback_fold_nonempty:
  "d f \<noteq> [] \<Longrightarrow>
     foldl (\<lambda>data (star_n, col).
              if data col = []
              then (case search_ic e (Rx_star star_n) full_text of
                      Some g \<Rightarrow> data(col := replace_comma g)
                    | None \<Rightarrow> data)
              else data) d keys f = d f"
proof (induction keys arbitrary: d)
  case Nil
  show ?case by simp
next
  case (Cons k keys)
  obtain star_n col where k: "k = (star_n, col)" by (cases k)
  let ?d = "if d col = []
            then (case search_ic e (Rx_star star_n) full_text of
                    Some g \<Rightarrow> d(col := replace_comma g)
                  | None \<Rightarrow> d)
            else d"
  have same: "?d f = d f"
    using Cons.prems by (auto split: option.splits)
  then have "?d f \<noteq> []" using Cons.prems by simp
  then show ?case using Cons.IH [of ?d] same by (simp add: k)
qed

lemma star_fallback_nonempty:
  "d f \<noteq> [] \<Longrightarrow> star_fallback e soup d f = d f"
  unfolding star_fallback_def Let_def by (rule fallback_fold_nonempty)


section \<open>Proofs: the star distribution\<close>

text \<open>
  C7. On a detail page that was fetched, the result of \<open>parse_company_page\<close> is the record
  left by the loop over the star rows, passed through the fallback; every field that is not
  empty after the rows has the same value in the result, and a field whose value the
  fallback changes is a star field that the rows left empty.
\<close>

theorem star_rows_take_precedence:
  assumes "get e (profile_url_of sl) = Some soup"
  shows "parse_company_page e sl = star_fallback e soup (after_star_rows e soup sl)
    \<and> (\<forall>col. after_star_rows e soup sl col \<noteq> []
          \<longrightarrow> parse_company_page e sl col = after_star_rows e soup sl col)
    \<and> (\<forall>col. parse_company_page e sl col \<noteq> after_star_rows e soup sl col
          \<longrightarrow> after_star_rows e soup sl col = []
              \<and> col \<in> {Star5_pct, Star4_pct, Star3_pct, Star2_pct, Star1_pct})"
proof -
  have p: "parse_company_page e sl = star_fallback e soup (after_star_rows e soup sl)"
    using assms by (simp add: parse_company_page_def after_star_rows_def)
  have a: "parse_company_page e sl col = after_star_rows e soup sl col"
    if "after_star_rows e soup sl col \<noteq> []" for col
    unfolding p using that by (rule star_fallback_nonempty)
  have b: "parse_company_page e sl col = after_star_rows e soup sl col"
    if "col \<notin> {Star5_pct, Star4_pct, Star3_pct, Star2_pct, Star1_pct}" for col
    unfolding p using that by (intro star_fallback_keeps) (simp add: star_keys_def)
  show ?thesis using p a b by blast
qed

theorem star_rows_take_precedence_witness:
  "search_ic env_stars (Rx_star 5) (get_text_sep_strip ex_company_page) = Some (py ''60'')
   \<and> after_star_rows env_stars ex_company_page (py ''acme'') Star5_pct = py ''54.5''
   \<and> parse_company_page env_stars (py ''acme'') Star5_pct = py ''54.5''"
proof -
  have g: "get env_stars (profile_url_of (py ''acme'')) = Some ex_company_page"
    unfolding get_def get_traced_cases by (simp add: env_stars_def mk_env_def)
  have s: "search_ic env_stars (Rx_star 5) (get_text_sep_strip ex_company_page) = Some (py ''60'')"
    by code_simp
  have r: "after_star_rows env_stars ex_company_page (py ''acme'') Star5_pct = py ''54.5''"
    by code_simp
  then have "after_star_rows env_stars ex_company_page (py ''acme'') Star5_pct \<noteq> []"
    by (simp add: py_def)
  then have "parse_company_page env_stars (py ''acme'') Star5_pct
      = after_star_rows env_stars ex_company_page (py ''acme'') Star5_pct"
    using star_rows_take_precedence [OF g] by blast
  then show ?thesis using s r by simp
qed

section \<open>Proofs: when the run aborts\<close>

lemma foldl_append_concat:
  "foldl (\<lambda>acc x. acc @ f x) a xs = a @ concat (map f xs)"
  by (induction xs arbitrary: a) simp_all

lemma collect_all_slugs_fetched:
  "get e (page_url 1) = Some soup \<Longrightarrow> get_total_pages e soup = Inr n \<Longrightarrow>
     collect_all_slugs e =
       Inr (parse_listing_page e soup @ concat (map (listing_of_page e) [2 ..< n + 1]))"
  by (simp add: collect_all_slugs_def foldl_append_concat)

lemma collect_all_slugs_raises:
  "get e (page_url 1) = Some soup \<Longrightarrow> get_total_pages e soup = Inl x \<Longrightarrow>
     collect_all_slugs e = Inl x"
  by (simp add: collect_all_slugs_def)

lemma collect_all_slugs_failed:
  "get e (page_url 1) = None \<Longrightarrow> collect_all_slugs e = Inr []"
  by (simp add: collect_all_slugs_def)

lemma main_cases:
  "main e =
     (case collect_all_slugs e of
        Inl x \<Rightarrow> Inl x
      | Inr stubs \<Rightarrow>
          if stubs = [] then Inr None
          else Inr (Some (map (scrape_company e) (dedup stubs))))"
  by (simp add: main_def)



text \<open>
  The exception that the model has: the run ends with \<^verbatim>\<open>ValueError\<close>, before the output file
  is opened, exactly when the first listing page is fetched and \<^verbatim>\<open>get_total_pages\<close> raises
  on it, as on the page of \<open>env_superscript\<close>, which has a company.
\<close>

lemma main_raises_iff:
  "main e = Inl x \<longleftrightarrow> (\<exists>soup. get e (page_url 1) = Some soup \<and> get_total_pages e soup = Inl x)"
proof (cases "get e (page_url 1)")
  case None
  then show ?thesis by (simp add: main_cases collect_all_slugs_failed)
next
  case (Some soup)
  show ?thesis
  proof (cases "get_total_pages e soup")
    case (Inl y)
    then show ?thesis using Some by (simp add: main_cases collect_all_slugs_raises)
  next
    case (Inr n)
    then show ?thesis
      using Some by (simp add: main_cases collect_all_slugs_fetched [OF Some Inr])
  qed
qed

lemma main_superscript_page_count:
  "parse_listing_page env_superscript ex_superscript_page \<noteq> []
   \<and> main env_superscript = Inl ValueError"
proof -
  have g: "get env_superscript (page_url 1) = Some ex_superscript_page"
    unfolding get_def get_traced_cases by (simp add: env_superscript_def mk_env_def)
  have t: "get_total_pages env_superscript ex_superscript_page = Inl ValueError"
    by code_simp
  have "parse_listing_page env_superscript ex_superscript_page \<noteq> []"
    by code_simp
  then show ?thesis using g t main_raises_iff [of env_superscript ValueError] by blast
qed




section \<open>Proofs: the percentage extractor\<close>



















text \<open>White space before the percent sign may be a no-break space.\<close>

lemma pct_no_break_space: "pct ascii_decimal (py ''54,5'' @ [160] @ py ''%'') = py ''54.5''"
  by code_simp

section \<open>Proofs: grouping by category\<close>

lemma cats_append_keys:
  "map fst (cats_append c x cats) =
     (if c \<in> fst ` set cats then map fst cats else map fst cats @ [c])"
  by (induction cats) (auto split: if_splits)

lemma cats_append_distinct:
  "distinct (map fst cats) \<Longrightarrow> distinct (map fst (cats_append c x cats))"
  by (simp add: cats_append_keys)

lemma map_of_cats_append:
  "map_of (cats_append c x cats) k =
     (if k = c then Some ((case map_of cats c of None \<Rightarrow> [] | Some xs \<Rightarrow> xs) @ [x])
      else map_of cats k)"
  by (induction cats) auto

lemma group_distinct: "distinct (map fst (group_by_category f rows))"
proof (induction rows rule: rev_induct)
  case Nil
  show ?case by (simp add: group_by_category_def)
next
  case (snoc r rows)
  have "group_by_category f (rows @ [r]) =
      cats_append (category_of r) (f r) (group_by_category f rows)"
    by (simp add: group_by_category_def)
  then show ?case using snoc by (simp only: cats_append_distinct)
qed

lemma map_of_group:
  "map_of (group_by_category f rows) c =
     (if \<exists>r \<in> set rows. category_of r = c
      then Some (map f (filter (\<lambda>r. category_of r = c) rows)) else None)"
proof (induction rows rule: rev_induct)
  case Nil
  show ?case by (simp add: group_by_category_def)
next
  case (snoc r rows)
  have step: "group_by_category f (rows @ [r]) =
      cats_append (category_of r) (f r) (group_by_category f rows)"
    by (simp add: group_by_category_def)
  show ?case
  proof (cases "category_of r = c")
    case True
    show ?thesis
    proof (cases "\<exists>r \<in> set rows. category_of r = c")
      case True
      then show ?thesis
        using snoc \<open>category_of r = c\<close> by (simp add: step map_of_cats_append)
    next
      case False
      then have "filter (\<lambda>r. category_of r = c) rows = []"
        by (simp add: filter_empty_conv)
      then show ?thesis
        using snoc False \<open>category_of r = c\<close> by (simp add: step map_of_cats_append)
    qed
  next
    case False
    then show ?thesis using snoc by (simp add: step map_of_cats_append)
  qed
qed

lemma group_member:
  "(c, items) \<in> set (group_by_category f rows) \<longleftrightarrow>
     (\<exists>r \<in> set rows. category_of r = c)
     \<and> items = map f (filter (\<lambda>r. category_of r = c) rows)"
proof -
  have "(c, items) \<in> set (group_by_category f rows)
      \<longleftrightarrow> map_of (group_by_category f rows) c = Some items"
    using group_distinct [of f rows] by simp
  then show ?thesis
    unfolding map_of_group by (cases "\<exists>r \<in> set rows. category_of r = c") auto
qed


section \<open>Proofs: the category summary\<close>

lemma py_int_not_statistics: "py_int v \<noteq> Inl StatisticsError"
  by (cases v) simp_all

lemma statistics_mean_nonempty:
  "xs \<noteq> [] \<Longrightarrow> statistics_mean lib xs = Inr (py_mean lib xs)"
  by (simp add: statistics_mean_def)

lemma avg_or_zero_Inr: "\<exists>a. avg_or_zero lib vs = Inr a"
proof (cases "list_ex (\<lambda>v. v \<noteq> None) vs")
  case True
  then have "filter (\<lambda>v. v \<noteq> None) vs \<noteq> []"
    by (simp add: filter_empty_conv list_ex_iff)
  then have "map the (filter (\<lambda>v. v \<noteq> None) vs) \<noteq> []"
    by simp
  then show ?thesis using True by (simp add: avg_or_zero_def statistics_mean_nonempty)
next
  case False
  then show ?thesis by (simp add: avg_or_zero_def)
qed

text \<open>
  With a rated company, the entry of a category fails only where \<^verbatim>\<open>int(sum(...))\<close> does.
\<close>

lemma summarise_cases:
  assumes "with_rating \<noteq> []"
  shows "(\<exists>x. py_int (py_sum lib (map reviews items)) = Inl x
            \<and> summarise lib c items with_rating = Inl x)
       \<or> (\<exists>n s. py_int (py_sum lib (map reviews items)) = Inr n
            \<and> summarise lib c items with_rating = Inr s
            \<and> s_category s = c \<and> s_count s = length items)"
proof -
  have ar: "statistics_mean lib (map (\<lambda>i. the (rating i)) with_rating)
      = Inr (py_mean lib (map (\<lambda>i. the (rating i)) with_rating))"
    using assms by (simp add: statistics_mean_nonempty)
  obtain al where al: "avg_or_zero lib (map loyalty items) = Inr al"
    using avg_or_zero_Inr by blast
  obtain ap where ap: "avg_or_zero lib (map response items) = Inr ap"
    using avg_or_zero_Inr by blast
  obtain av where av: "avg_or_zero lib (map resolved items) = Inr av"
    using avg_or_zero_Inr by blast
  show ?thesis
    by (cases "py_int (py_sum lib (map reviews items))")
      (simp_all add: summarise_def ar al ap av)
qed

text \<open>The test that lets a category into the summary.\<close>

lemma summary_loop_Inr:
  assumes "summary_loop lib cats m acc = Inr res"
  shows "\<exists>out. res = acc @ out
       \<and> map (\<lambda>s. (s_category s, s_count s)) out =
           map (\<lambda>(c, items). (c, length items))
             (filter (\<lambda>(c, items). m \<le> length items \<and> (\<exists>i \<in> set items. rating i \<noteq> None))
                cats)"
proof -
  define ok :: "pystr \<times> item list \<Rightarrow> bool"
    where "ok = (\<lambda>(c, items). m \<le> length items \<and> (\<exists>i \<in> set items. rating i \<noteq> None))"
  have "summary_loop lib cats m acc = Inr res \<Longrightarrow>
     \<exists>out. res = acc @ out
       \<and> map (\<lambda>s. (s_category s, s_count s)) out =
           map (\<lambda>(c, items). (c, length items)) (filter ok cats)"
  proof (induction cats arbitrary: acc)
    case Nil
    then show ?case by simp
  next
    case (Cons p cats)
    obtain c items where p: "p = (c, items)" by (cases p)
    show ?case
    proof (cases "ok p")
      case False
      then have "length items < m \<or> filter (\<lambda>i. rating i \<noteq> None) items = []"
        unfolding ok_def p by (auto simp: filter_empty_conv)
      then have sl: "summary_loop lib (p # cats) m acc = summary_loop lib cats m acc"
        unfolding p by (auto simp: Let_def)
      have nf: "filter ok (p # cats) = filter ok cats"
        using False by simp
      show ?thesis unfolding nf using Cons.IH [of acc] Cons.prems sl by simp
    next
      case True
      then have len: "\<not> length items < m"
        and wr: "filter (\<lambda>i. rating i \<noteq> None) items \<noteq> []"
        unfolding ok_def p by (auto simp: filter_empty_conv)
      have step: "summary_loop lib (p # cats) m acc =
          (case summarise lib c items (filter (\<lambda>i. rating i \<noteq> None) items) of
             Inl x \<Rightarrow> Inl x
           | Inr s \<Rightarrow> summary_loop lib cats m (acc @ [s]))"
        unfolding p using len wr by (simp add: Let_def)
      obtain s where s: "summarise lib c items (filter (\<lambda>i. rating i \<noteq> None) items) = Inr s"
          "s_category s = c" "s_count s = length items"
        using summarise_cases [OF wr, of lib items c] Cons.prems step by auto
      have "summary_loop lib cats m (acc @ [s]) = Inr res"
        using Cons.prems step s(1) by simp
      then obtain out where out: "res = (acc @ [s]) @ out"
        "map (\<lambda>s. (s_category s, s_count s)) out =
           map (\<lambda>(c, items). (c, length items)) (filter ok cats)"
        using Cons.IH [of "acc @ [s]"] by blast
      have nf: "filter ok (p # cats) = p # filter ok cats"
        using True by simp
      have "res = acc @ (s # out)"
        using out(1) by simp
      moreover have "map (\<lambda>s. (s_category s, s_count s)) (s # out) =
           map (\<lambda>(c, items). (c, length items)) (filter ok (p # cats))"
        unfolding nf using out(2) s(2,3) by (simp add: p)
      ultimately show ?thesis by blast
    qed
  qed
  from this [OF assms] show ?thesis unfolding ok_def .
qed

lemma summary_loop_not_statistics:
  "summary_loop lib cats m acc \<noteq> Inl StatisticsError"
proof (induction cats arbitrary: acc)
  case Nil
  show ?case by simp
next
  case (Cons p cats)
  obtain c items where p: "p = (c, items)" by (cases p)
  show ?case
  proof (cases "length items < m \<or> filter (\<lambda>i. rating i \<noteq> None) items = []")
    case True
    then have "summary_loop lib (p # cats) m acc = summary_loop lib cats m acc"
      unfolding p by (auto simp: Let_def)
    then show ?thesis using Cons.IH [of acc] by simp
  next
    case False
    then have wr: "filter (\<lambda>i. rating i \<noteq> None) items \<noteq> []" by simp
    have step: "summary_loop lib (p # cats) m acc =
          (case summarise lib c items (filter (\<lambda>i. rating i \<noteq> None) items) of
             Inl x \<Rightarrow> Inl x
           | Inr s \<Rightarrow> summary_loop lib cats m (acc @ [s]))"
      unfolding p using False by (simp add: Let_def)
    from summarise_cases [OF wr, of lib items c] show ?thesis
    proof (elim disjE exE conjE)
      fix x
      assume "py_int (py_sum lib (map reviews items)) = Inl x"
        and "summarise lib c items (filter (\<lambda>i. rating i \<noteq> None) items) = Inl x"
      then show ?thesis
        unfolding step using py_int_not_statistics [of "py_sum lib (map reviews items)"]
        by auto
    next
      fix n s
      assume "summarise lib c items (filter (\<lambda>i. rating i \<noteq> None) items) = Inr s"
      then show ?thesis unfolding step using Cons.IH [of "acc @ [s]"] by simp
    qed
  qed
qed

lemma rating_item_of: "rating (item_of lib r) = flt lib (r Overall_rating)"
  by (simp add: item_of_def)

lemma build_cat_stats_Inr:
  assumes "build_cat_stats lib rows m = Inr summary"
  shows "(c, n) \<in> (\<lambda>s. (s_category s, s_count s)) ` set summary \<longleftrightarrow>
           n = length (filter (\<lambda>r. category_of r = c) rows) \<and> m \<le> n
           \<and> (\<exists>r \<in> set rows. category_of r = c \<and> flt lib (r Overall_rating) \<noteq> None)"
    (is "?L \<longleftrightarrow> ?R")
proof -
  let ?G = "group_by_category (item_of lib) rows"
  define ok :: "pystr \<times> item list \<Rightarrow> bool"
    where "ok = (\<lambda>(c, items). m \<le> length items \<and> (\<exists>i \<in> set items. rating i \<noteq> None))"
  have "summary_loop lib ?G m [] = Inr summary"
    using assms by (simp add: build_cat_stats_def)
  then obtain out where out: "summary = [] @ out"
    "map (\<lambda>s. (s_category s, s_count s)) out =
       map (\<lambda>(c, items). (c, length items)) (filter ok ?G)"
    using summary_loop_Inr [of lib ?G m "[]" summary] unfolding ok_def by blast
  have "?L \<longleftrightarrow> (c, n) \<in> set (map (\<lambda>s. (s_category s, s_count s)) out)"
    using out(1) by simp
  also have "\<dots> \<longleftrightarrow> (\<exists>items. (c, items) \<in> set ?G \<and> ok (c, items) \<and> n = length items)"
    unfolding out(2) by force
  also have "\<dots> \<longleftrightarrow> (\<exists>items. ((\<exists>r \<in> set rows. category_of r = c)
        \<and> items = map (item_of lib) (filter (\<lambda>r. category_of r = c) rows))
        \<and> ok (c, items) \<and> n = length items)"
    unfolding group_member ..
  also have "\<dots> \<longleftrightarrow> ?R"
    unfolding ok_def by (auto simp: rating_item_of)
  finally show ?thesis .
qed

lemma build_cat_stats_categories:
  assumes "build_cat_stats lib rows m = Inr summary"
  shows "c \<in> s_category ` set summary \<longleftrightarrow>
           m \<le> length (filter (\<lambda>r. category_of r = c) rows)
           \<and> (\<exists>r \<in> set rows. category_of r = c \<and> flt lib (r Overall_rating) \<noteq> None)"
proof -
  have "c \<in> s_category ` set summary \<longleftrightarrow>
      (\<exists>n. (c, n) \<in> (\<lambda>s. (s_category s, s_count s)) ` set summary)"
    by force
  then show ?thesis unfolding build_cat_stats_Inr [OF assms] by blast
qed

lemma build_cat_stats_not_statistics:
  "build_cat_stats lib rows m \<noteq> Inl StatisticsError"
  unfolding build_cat_stats_def by (rule summary_loop_not_statistics)

text \<open>A review count that is infinite makes \<^verbatim>\<open>int(sum(...))\<close> raise.\<close>

lemma build_cat_stats_infinite: "build_cat_stats ex_numlib ex_infinite 5 = Inl OverflowError"
  by code_simp

section \<open>Proofs: counting by category\<close>

lemma cats_incr_keys:
  "map fst (cats_incr c cats) =
     (if c \<in> fst ` set cats then map fst cats else map fst cats @ [c])"
  by (induction cats) (auto split: if_splits)

lemma map_of_cats_incr:
  "map_of (cats_incr c cats) k =
     (if k = c then Some ((case map_of cats c of None \<Rightarrow> 0 | Some n \<Rightarrow> n) + 1)
      else map_of cats k)"
  by (induction cats) auto

lemma count_step:
  "count_by_category (rows @ [r]) = cats_incr (category_of r) (count_by_category rows)"
  by (simp add: count_by_category_def)

lemma count_distinct: "distinct (map fst (count_by_category rows))"
proof (induction rows rule: rev_induct)
  case Nil
  show ?case by (simp add: count_by_category_def)
next
  case (snoc r rows)
  then show ?case unfolding count_step by (simp add: cats_incr_keys)
qed

lemma map_of_count:
  "map_of (count_by_category rows) c =
     (if \<exists>r \<in> set rows. category_of r = c
      then Some (length (filter (\<lambda>r. category_of r = c) rows)) else None)"
proof (induction rows rule: rev_induct)
  case Nil
  show ?case by (simp add: count_by_category_def)
next
  case (snoc r rows)
  show ?case
  proof (cases "category_of r = c")
    case True
    show ?thesis
    proof (cases "\<exists>r \<in> set rows. category_of r = c")
      case True
      then show ?thesis
        using snoc \<open>category_of r = c\<close> by (simp add: count_step map_of_cats_incr)
    next
      case False
      then have "filter (\<lambda>r. category_of r = c) rows = []"
        by (simp add: filter_empty_conv)
      then show ?thesis
        using snoc False \<open>category_of r = c\<close> by (simp add: count_step map_of_cats_incr)
    qed
  next
    case False
    then show ?thesis using snoc by (simp add: count_step map_of_cats_incr)
  qed
qed

lemma count_member:
  "(c, n) \<in> set (count_by_category rows) \<longleftrightarrow>
     (\<exists>r \<in> set rows. category_of r = c) \<and> n = length (filter (\<lambda>r. category_of r = c) rows)"
proof -
  have "(c, n) \<in> set (count_by_category rows) \<longleftrightarrow> map_of (count_by_category rows) c = Some n"
    using count_distinct [of rows] by simp
  then show ?thesis
    unfolding map_of_count by (cases "\<exists>r \<in> set rows. category_of r = c") auto
qed

lemma category_of_Diger:
  "category_of r = Diger \<longleftrightarrow> r Category = [] \<or> r Category = Diger"
  by (simp add: category_of_def)

lemma chart_01_subset: "set (chart_01_market_landscape rows) \<subseteq> set (count_by_category rows)"
  unfolding chart_01_market_landscape_def
  using set_take_subset [of 15 "sort_key (\<lambda>x. - int (snd x)) (count_by_category rows)"]
  by simp

lemma chart_01_all:
  "length (count_by_category rows) \<le> 15 \<Longrightarrow>
     set (chart_01_market_landscape rows) = set (count_by_category rows)"
  unfolding chart_01_market_landscape_def by simp

section \<open>Proofs: the most reviewed companies\<close>

lemma set_insort_lt: "set (insort_lt lt key x xs) = insert x (set xs)"
  by (induction xs) auto

lemma set_sorted_lt: "set (sorted_lt lt key xs) = set xs"
  unfolding sorted_lt_def by (induction xs) (simp_all add: set_insort_lt)

lemma length_insort_lt: "length (insort_lt lt key x xs) = Suc (length xs)"
  by (induction xs) auto

lemma length_sorted_lt: "length (sorted_lt lt key xs) = length xs"
  unfolding sorted_lt_def by (induction xs) (simp_all add: length_insort_lt)

lemma at_least_ten_truthy: "py_le (Fin 10) v \<Longrightarrow> truthy v"
  by (cases v) auto

lemma enough_reviews_iff:
  "enough_reviews lib r \<longleftrightarrow> (\<exists>v. flt lib (r Total_reviews) = Some v \<and> py_le (Fin 10) v)"
  by (cases "flt lib (r Total_reviews)") (auto simp: enough_reviews_def at_least_ten_truthy)

lemma rated_member:
  "x \<in> set (rated lib rows) \<longleftrightarrow>
     (\<exists>r \<in> set rows. \<exists>v. flt lib (r Total_reviews) = Some v \<and> py_le (Fin 10) v
        \<and> x = (r Name, v, flt lib (r Overall_rating)))"
proof
  assume "x \<in> set (rated lib rows)"
  then obtain r where r: "r \<in> set rows" "enough_reviews lib r"
    and x: "x = (r Name, or_zero (flt lib (r Total_reviews)), flt lib (r Overall_rating))"
    unfolding rated_def by auto
  obtain v where v: "flt lib (r Total_reviews) = Some v" "py_le (Fin 10) v"
    using r(2) unfolding enough_reviews_iff by blast
  have "x = (r Name, v, flt lib (r Overall_rating))"
    using x v at_least_ten_truthy [OF v(2)] by (simp add: or_zero_def)
  then show "\<exists>r \<in> set rows. \<exists>v. flt lib (r Total_reviews) = Some v \<and> py_le (Fin 10) v
        \<and> x = (r Name, v, flt lib (r Overall_rating))"
    using r(1) v by blast
next
  assume "\<exists>r \<in> set rows. \<exists>v. flt lib (r Total_reviews) = Some v \<and> py_le (Fin 10) v
        \<and> x = (r Name, v, flt lib (r Overall_rating))"
  then obtain r v where r: "r \<in> set rows"
    and v: "flt lib (r Total_reviews) = Some v" "py_le (Fin 10) v"
    and x: "x = (r Name, v, flt lib (r Overall_rating))"
    by blast
  have "enough_reviews lib r"
    unfolding enough_reviews_iff using v by blast
  moreover have "x = (r Name, or_zero (flt lib (r Total_reviews)), flt lib (r Overall_rating))"
    using x v at_least_ten_truthy [OF v(2)] by (simp add: or_zero_def)
  ultimately show "x \<in> set (rated lib rows)"
    unfolding rated_def using r by auto
qed

lemma chart_07_subset: "set (chart_07_most_reviewed lib rows) \<subseteq> set (rated lib rows)"
  unfolding chart_07_most_reviewed_def
  using set_take_subset [of 15 "sorted_lt py_lt (\<lambda>x. py_neg (fst (snd x))) (rated lib rows)"]
  by (simp add: set_sorted_lt)

lemma chart_07_all:
  "length (rated lib rows) \<le> 15 \<Longrightarrow>
     set (chart_07_most_reviewed lib rows) = set (rated lib rows)"
  unfolding chart_07_most_reviewed_def by (simp add: length_sorted_lt set_sorted_lt)

section \<open>Proofs: the thresholds of the charts\<close>

theorem five_unrated_counterexample:
  "length (filter (\<lambda>r. category_of r = py ''A'') ex_unrated5) = 5
   \<and> build_cat_stats ex_numlib ex_unrated5 5 = Inr []"
  by code_simp

text \<open>
  C6, amended. Whenever \<open>build_cat_stats\<close> with minimum 5 returns a summary, a category is
  in it exactly when it has at least 5 companies and at least one of them has an
  \<open>overall_rating\<close> that parses: a category with fewer than 5 companies is left out, and one
  with exactly 5 is in the summary when one of its companies is rated. A company passes the
  filter of \<open>chart_07_most_reviewed\<close> exactly when its \<open>total_reviews\<close> parses to a float
  \<open>v\<close> with \<open>10 \<le> v\<close>, exactly 10 included; every company plotted has passed the filter,
  and when at most 15 pass, each of them is plotted.
\<close>

theorem category_and_review_minimum:
  "(\<forall>summary. build_cat_stats lib rows 5 = Inr summary \<longrightarrow>
      (\<forall>c. c \<in> s_category ` set summary \<longleftrightarrow>
             5 \<le> length (filter (\<lambda>r. category_of r = c) rows)
             \<and> (\<exists>r \<in> set rows. category_of r = c \<and> flt lib (r Overall_rating) \<noteq> None)))
   \<and> (\<forall>x. x \<in> set (rated lib rows) \<longleftrightarrow>
         (\<exists>r \<in> set rows. \<exists>v. flt lib (r Total_reviews) = Some v \<and> py_le (Fin 10) v
            \<and> x = (r Name, v, flt lib (r Overall_rating))))
   \<and> set (chart_07_most_reviewed lib rows) \<subseteq> set (rated lib rows)
   \<and> (length (rated lib rows) \<le> 15 \<longrightarrow>
        set (chart_07_most_reviewed lib rows) = set (rated lib rows))"
  using build_cat_stats_categories [of lib rows 5] rated_member [of _ lib rows]
    chart_07_subset [of lib rows] chart_07_all [of lib rows]
  by blast

theorem category_and_review_minimum_witness:
  "(\<exists>summary. build_cat_stats ex_numlib ex_rated 5 = Inr summary
      \<and> py ''B'' \<in> s_category ` set summary \<and> py ''C'' \<notin> s_category ` set summary)
   \<and> (py ''b1'', Fin 10, Some (Fin 4)) \<in> set (chart_07_most_reviewed ex_numlib ex_rated)
   \<and> (py ''c1'', Fin 9, Some (Fin 5)) \<notin> set (chart_07_most_reviewed ex_numlib ex_rated)"
proof -
  note inst = category_and_review_minimum [of ex_numlib ex_rated]
  have s: "build_cat_stats ex_numlib ex_rated 5 =
      Inr [\<lparr>s_category = py ''B'', s_count = 5, s_avg_rating = Fin 4, s_total_reviews = 47,
             s_avg_loyalty = Fin 0, s_avg_response = Fin 0, s_avg_resolved = Fin 0\<rparr>]"
    (is "_ = Inr ?summary")
    by code_simp
  have b: "5 \<le> length (filter (\<lambda>r. category_of r = py ''B'') ex_rated)
      \<and> (\<exists>r \<in> set ex_rated. category_of r = py ''B''
            \<and> flt ex_numlib (r Overall_rating) \<noteq> None)"
    by code_simp
  have c: "\<not> 5 \<le> length (filter (\<lambda>r. category_of r = py ''C'') ex_rated)"
    by code_simp
  have d: "\<And>c. c \<in> s_category ` set ?summary \<longleftrightarrow>
        5 \<le> length (filter (\<lambda>r. category_of r = c) ex_rated)
        \<and> (\<exists>r \<in> set ex_rated. category_of r = c \<and> flt ex_numlib (r Overall_rating) \<noteq> None)"
    using inst [THEN conjunct1, rule_format, OF s] .
  have "py ''B'' \<in> s_category ` set ?summary" "py ''C'' \<notin> s_category ` set ?summary"
    unfolding d using b c by simp_all
  then have one: "\<exists>summary. build_cat_stats ex_numlib ex_rated 5 = Inr summary
      \<and> py ''B'' \<in> s_category ` set summary \<and> py ''C'' \<notin> s_category ` set summary"
    using s by blast
  have len: "length (rated ex_numlib ex_rated) \<le> 15"
    by code_simp
  let ?b1 = "mk_row ''b1'' ''B'' ''4'' ''10''"
  let ?c1 = "mk_row ''c1'' ''C'' ''5'' ''9''"
  have mem: "?b1 \<in> set ex_rated"
    by (simp add: ex_rated_def)
  have b1: "flt ex_numlib (?b1 Total_reviews) = Some (Fin 10) \<and> py_le (Fin 10) (Fin 10)"
    and b1': "?b1 Name = py ''b1''" "flt ex_numlib (?b1 Overall_rating) = Some (Fin 4)"
    by code_simp+
  have "(?b1 Name, Fin 10, flt ex_numlib (?b1 Overall_rating)) \<in> set (rated ex_numlib ex_rated)"
    unfolding inst [THEN conjunct2, THEN conjunct1, rule_format] using mem b1 by blast
  then have "(py ''b1'', Fin 10, Some (Fin 4)) \<in> set (rated ex_numlib ex_rated)"
    unfolding b1' .
  then have two: "(py ''b1'', Fin 10, Some (Fin 4))
      \<in> set (chart_07_most_reviewed ex_numlib ex_rated)"
    using inst [THEN conjunct2, THEN conjunct2, THEN conjunct2, rule_format, OF len] by simp
  have "(py ''c1'', Fin 9, Some (Fin 5)) \<notin> set (rated ex_numlib ex_rated)"
    unfolding inst [THEN conjunct2, THEN conjunct1, rule_format] by auto
  then have three: "(py ''c1'', Fin 9, Some (Fin 5))
      \<notin> set (chart_07_most_reviewed ex_numlib ex_rated)"
    using inst [THEN conjunct2, THEN conjunct2, THEN conjunct1] by blast
  show ?thesis using one two three by blast
qed

section \<open>Proofs: categories without a rating\<close>

text \<open>
  C9. \<open>build_cat_stats\<close> never raises \<^verbatim>\<open>StatisticsError\<close>: no mean is taken of an empty
  list. Every entry of a summary it returns is for a category with at least one company
  whose \<open>overall_rating\<close> parses as a number, and a category none of whose companies has
  such a rating has no entry, however many companies it has.
\<close>

theorem build_cat_stats_rated_only:
  "build_cat_stats lib rows m \<noteq> Inl StatisticsError
   \<and> (\<forall>summary. build_cat_stats lib rows m = Inr summary \<longrightarrow>
         (\<forall>s \<in> set summary. \<exists>r \<in> set rows.
            category_of r = s_category s \<and> flt lib (r Overall_rating) \<noteq> None)
         \<and> (\<forall>c. (\<forall>r \<in> set rows. category_of r = c \<longrightarrow> flt lib (r Overall_rating) = None)
               \<longrightarrow> c \<notin> s_category ` set summary))"
proof (intro conjI allI impI)
  show "build_cat_stats lib rows m \<noteq> Inl StatisticsError"
    by (rule build_cat_stats_not_statistics)
next
  fix summary
  assume s: "build_cat_stats lib rows m = Inr summary"
  show "\<forall>s \<in> set summary. \<exists>r \<in> set rows.
      category_of r = s_category s \<and> flt lib (r Overall_rating) \<noteq> None"
  proof
    fix x
    assume "x \<in> set summary"
    then have "s_category x \<in> s_category ` set summary" by simp
    then show "\<exists>r \<in> set rows. category_of r = s_category x
        \<and> flt lib (r Overall_rating) \<noteq> None"
      unfolding build_cat_stats_categories [OF s] by blast
  qed
next
  fix summary c
  assume s: "build_cat_stats lib rows m = Inr summary"
    and none: "\<forall>r \<in> set rows. category_of r = c \<longrightarrow> flt lib (r Overall_rating) = None"
  have "\<not> (\<exists>r \<in> set rows. category_of r = c \<and> flt lib (r Overall_rating) \<noteq> None)"
    using none by auto
  then show "c \<notin> s_category ` set summary"
    unfolding build_cat_stats_categories [OF s] by simp
qed

theorem build_cat_stats_rated_only_witness:
  "\<exists>summary. build_cat_stats ex_numlib (ex_unrated5 @ ex_rated) 5 = Inr summary
     \<and> py ''A'' \<notin> s_category ` set summary"
proof -
  have s: "build_cat_stats ex_numlib (ex_unrated5 @ ex_rated) 5 =
      Inr [\<lparr>s_category = py ''B'', s_count = 5, s_avg_rating = Fin 4, s_total_reviews = 47,
             s_avg_loyalty = Fin 0, s_avg_response = Fin 0, s_avg_resolved = Fin 0\<rparr>]"
    (is "_ = Inr ?summary")
    by code_simp
  have "\<forall>r \<in> set (ex_unrated5 @ ex_rated).
      category_of r = py ''A'' \<longrightarrow> flt ex_numlib (r Overall_rating) = None"
    by code_simp
  then have "py ''A'' \<notin> s_category ` set ?summary"
    using build_cat_stats_rated_only [of ex_numlib "ex_unrated5 @ ex_rated" 5,
        THEN conjunct2, rule_format, OF s, THEN conjunct2, rule_format]
    by blast
  then show ?thesis using s by blast
qed

section \<open>Proofs: companies without a category\<close>

lemma cats_incr_sum: "sum_list (map snd (cats_incr c cats)) = sum_list (map snd cats) + 1"
  by (induction cats) auto

lemma count_sum: "sum_list (map snd (count_by_category rows)) = length rows"
proof (induction rows rule: rev_induct)
  case Nil
  show ?case by (simp add: count_by_category_def)
next
  case (snoc r rows)
  then show ?case unfolding count_step by (simp add: cats_incr_sum)
qed

lemma cats_append_sum:
  "sum_list (map (\<lambda>p. length (snd p)) (cats_append c x cats))
     = sum_list (map (\<lambda>p. length (snd p)) cats) + 1"
  by (induction cats) auto

lemma group_sum:
  "sum_list (map (\<lambda>p. length (snd p)) (group_by_category f rows)) = length rows"
proof (induction rows rule: rev_induct)
  case Nil
  show ?case by (simp add: group_by_category_def)
next
  case (snoc r rows)
  have "group_by_category f (rows @ [r]) =
      cats_append (category_of r) (f r) (group_by_category f rows)"
    by (simp add: group_by_category_def)
  then show ?case using snoc by (simp add: cats_append_sum)
qed

lemma filter_Diger:
  "filter (\<lambda>r. category_of r = Diger) rows = filter (\<lambda>r. r Category = [] \<or> r Category = Diger) rows"
  by (simp add: category_of_Diger)

text \<open>
  C10. Rows with an empty \<open>category\<close> are kept by both aggregations, under the category
  \<open>Diger\<close>: every row is in the group, and in the count, of exactly one category; the group
  and the count of \<open>Diger\<close> are those of the rows whose category is empty or is \<open>Diger\<close>
  itself. So \<open>Diger\<close> is in every summary that \<open>build_cat_stats\<close> returns when there are
  at least \<open>min_companies\<close> such rows, one of them rated, and among the counts plotted by
  \<open>chart_01_market_landscape\<close> when there is such a row and at most 15 categories.
\<close>

theorem empty_category_is_Diger:
  "sum_list (map (\<lambda>p. length (snd p)) (group_by_category f rows)) = length rows
   \<and> sum_list (map snd (count_by_category rows)) = length rows
   \<and> (\<forall>r \<in> set rows. r Category = [] \<longrightarrow>
         (Diger, map f (filter (\<lambda>r. r Category = [] \<or> r Category = Diger) rows))
           \<in> set (group_by_category f rows)
         \<and> (Diger, length (filter (\<lambda>r. r Category = [] \<or> r Category = Diger) rows))
           \<in> set (count_by_category rows))
   \<and> (\<forall>summary. build_cat_stats lib rows m = Inr summary \<longrightarrow>
        (Diger \<in> s_category ` set summary \<longleftrightarrow>
           m \<le> length (filter (\<lambda>r. r Category = [] \<or> r Category = Diger) rows)
           \<and> (\<exists>r \<in> set rows. (r Category = [] \<or> r Category = Diger)
                 \<and> flt lib (r Overall_rating) \<noteq> None)))
   \<and> (length (count_by_category rows) \<le> 15 \<longrightarrow>
        (\<forall>r \<in> set rows. r Category = [] \<longrightarrow>
           (Diger, length (filter (\<lambda>r. r Category = [] \<or> r Category = Diger) rows))
             \<in> set (chart_01_market_landscape rows)))"
proof (intro conjI)
  show "sum_list (map (\<lambda>p. length (snd p)) (group_by_category f rows)) = length rows"
    by (rule group_sum)
  show "sum_list (map snd (count_by_category rows)) = length rows"
    by (rule count_sum)
  have g: "(Diger, map f (filter (\<lambda>r. r Category = [] \<or> r Category = Diger) rows))
           \<in> set (group_by_category f rows)"
    and n: "(Diger, length (filter (\<lambda>r. r Category = [] \<or> r Category = Diger) rows))
           \<in> set (count_by_category rows)"
    if "r \<in> set rows" "r Category = []" for r
  proof -
    have ex: "\<exists>r \<in> set rows. category_of r = Diger"
      using that category_of_Diger by blast
    show "(Diger, map f (filter (\<lambda>r. r Category = [] \<or> r Category = Diger) rows))
           \<in> set (group_by_category f rows)"
      unfolding group_member using ex by (simp add: filter_Diger)
    show "(Diger, length (filter (\<lambda>r. r Category = [] \<or> r Category = Diger) rows))
           \<in> set (count_by_category rows)"
      unfolding count_member using ex by (simp add: filter_Diger)
  qed
  then show "\<forall>r \<in> set rows. r Category = [] \<longrightarrow>
         (Diger, map f (filter (\<lambda>r. r Category = [] \<or> r Category = Diger) rows))
           \<in> set (group_by_category f rows)
         \<and> (Diger, length (filter (\<lambda>r. r Category = [] \<or> r Category = Diger) rows))
           \<in> set (count_by_category rows)"
    by blast
  show "length (count_by_category rows) \<le> 15 \<longrightarrow>
        (\<forall>r \<in> set rows. r Category = [] \<longrightarrow>
           (Diger, length (filter (\<lambda>r. r Category = [] \<or> r Category = Diger) rows))
             \<in> set (chart_01_market_landscape rows))"
    using n chart_01_all [of rows] by blast
  show "\<forall>summary. build_cat_stats lib rows m = Inr summary \<longrightarrow>
        (Diger \<in> s_category ` set summary \<longleftrightarrow>
           m \<le> length (filter (\<lambda>r. r Category = [] \<or> r Category = Diger) rows)
           \<and> (\<exists>r \<in> set rows. (r Category = [] \<or> r Category = Diger)
                 \<and> flt lib (r Overall_rating) \<noteq> None))"
  proof (intro allI impI)
    fix summary
    assume s: "build_cat_stats lib rows m = Inr summary"
    show "Diger \<in> s_category ` set summary \<longleftrightarrow>
           m \<le> length (filter (\<lambda>r. r Category = [] \<or> r Category = Diger) rows)
           \<and> (\<exists>r \<in> set rows. (r Category = [] \<or> r Category = Diger)
                 \<and> flt lib (r Overall_rating) \<noteq> None)"
      unfolding build_cat_stats_categories [OF s] filter_Diger category_of_Diger ..
  qed
qed

theorem empty_category_is_Diger_witness:
  "(\<exists>summary. build_cat_stats ex_numlib ex_no_category 5 = Inr summary
      \<and> Diger \<in> s_category ` set summary)
   \<and> (Diger, 5) \<in> set (chart_01_market_landscape ex_no_category)
   \<and> (Diger, 5) \<in> set (count_by_category ex_no_category)"
proof -
  note inst = empty_category_is_Diger
    [of "item_of ex_numlib" ex_no_category ex_numlib 5]
  let ?r = "mk_row ''d1'' [] ''4'' ''10''"
  have mem: "?r \<in> set ex_no_category"
    by (simp add: ex_no_category_def)
  have r: "?r Category = [] \<and> flt ex_numlib (?r Overall_rating) \<noteq> None"
    by code_simp
  have len: "length (filter (\<lambda>r. r Category = [] \<or> r Category = Diger) ex_no_category) = 5
      \<and> length (count_by_category ex_no_category) \<le> 15"
    by code_simp
  have s: "build_cat_stats ex_numlib ex_no_category 5 =
      Inr [\<lparr>s_category = Diger, s_count = 5, s_avg_rating = Fin (7 / 2),
             s_total_reviews = 22, s_avg_loyalty = Fin 0, s_avg_response = Fin 0,
             s_avg_resolved = Fin 0\<rparr>]"
    (is "_ = Inr ?summary")
    by code_simp
  have rated: "\<exists>r \<in> set ex_no_category. (r Category = [] \<or> r Category = Diger)
      \<and> flt ex_numlib (r Overall_rating) \<noteq> None"
    using mem r by blast
  have "Diger \<in> s_category ` set ?summary"
    unfolding inst [THEN conjunct2, THEN conjunct2, THEN conjunct2, THEN conjunct1,
        rule_format, OF s]
    using rated len by simp
  then have one: "\<exists>summary. build_cat_stats ex_numlib ex_no_category 5 = Inr summary
      \<and> Diger \<in> s_category ` set summary"
    using s by blast
  have two: "(Diger, 5) \<in> set (chart_01_market_landscape ex_no_category)"
    using inst [THEN conjunct2, THEN conjunct2, THEN conjunct2, THEN conjunct2] mem r len
    by auto
  have three: "(Diger, 5) \<in> set (count_by_category ex_no_category)"
    using inst [THEN conjunct2, THEN conjunct2, THEN conjunct1] mem r len
    by auto
  show ?thesis using one two three by blast
qed

end
